theory Spec2Isabelle
  imports Complex_Main
begin

section \<open>JavaScript numbers\<close>

text \<open>
  A JavaScript number is an IEEE double. The embedding keeps the four kinds of value the
  code can tell apart (a finite number, the two infinities, NaN) and idealises the finite
  ones to exact rationals: rounding, overflow of finite arithmetic and the sign of zero
  are not modelled. \<open>null\<close> and \<open>undefined\<close> are \<open>None\<close> of an option type.
\<close>

datatype jsnum = Num rat | PosInf | NegInf | NaN

text \<open>\<open>n / d\<close> on finite operands: a zero divisor gives an infinity or NaN, never an error.\<close>

definition js_div :: "rat \<Rightarrow> rat \<Rightarrow> jsnum" where
  "js_div n d =
     (if d \<noteq> 0 then Num (n / d)
      else if 0 < n then PosInf
      else if n < 0 then NegInf
      else NaN)"

text \<open>\<open>x * k\<close> for a finite \<open>k\<close>.\<close>

definition js_times :: "jsnum \<Rightarrow> rat \<Rightarrow> jsnum" where
  "js_times x k =
     (case x of
        Num r \<Rightarrow> Num (r * k)
      | PosInf \<Rightarrow> (if 0 < k then PosInf else if k < 0 then NegInf else NaN)
      | NegInf \<Rightarrow> (if 0 < k then NegInf else if k < 0 then PosInf else NaN)
      | NaN \<Rightarrow> NaN)"

text \<open>\<open>Math.max\<close> and \<open>Math.min\<close>: NaN if either argument is NaN.\<close>

fun js_max :: "jsnum \<Rightarrow> jsnum \<Rightarrow> jsnum" where
  "js_max NaN _ = NaN"
| "js_max _ NaN = NaN"
| "js_max PosInf _ = PosInf"
| "js_max _ PosInf = PosInf"
| "js_max NegInf y = y"
| "js_max x NegInf = x"
| "js_max (Num a) (Num b) = Num (max a b)"



text \<open>\<open>Number.isFinite\<close>.\<close>

fun js_isFinite :: "jsnum \<Rightarrow> bool" where
  "js_isFinite (Num _) = True"
| "js_isFinite _ = False"

text \<open>\<open>x ?? d\<close>: the default replaces only \<open>null\<close> and \<open>undefined\<close>.\<close>

definition nullish :: "'a option \<Rightarrow> 'a \<Rightarrow> 'a" where
  "nullish x d = (case x of None \<Rightarrow> d | Some v \<Rightarrow> v)"

section \<open>JavaScript strings\<close>

text \<open>
  A string is a list of code units; the embedding covers code units below 256. White
  space, for \<open>trim\<close>, \<open>parseInt\<close> and the class \<open>\s\<close>, is then TAB, LF, VT, FF, CR,
  space and the no-break space.
\<close>

definition isWs :: "char \<Rightarrow> bool" where
  "isWs c = (of_char c \<in> {9, 10, 11, 12, 13, 32, 160 :: nat})"

definition isDigit :: "char \<Rightarrow> bool" where
  "isDigit c = (48 \<le> (of_char c :: nat) \<and> (of_char c :: nat) \<le> 57)"

definition trim :: "string \<Rightarrow> string" where
  "trim s = rev (dropWhile isWs (rev (dropWhile isWs s)))"

text \<open>\<open>s.split(d)\<close> for a one-character separator: \<open>splitOn d [] s\<close>.\<close>

fun splitOn :: "char \<Rightarrow> string \<Rightarrow> string \<Rightarrow> string list" where
  "splitOn d cur [] = [rev cur]"
| "splitOn d cur (c # cs) =
     (if c = d then rev cur # splitOn d [] cs else splitOn d (c # cur) cs)"

definition splitChar :: "char \<Rightarrow> string \<Rightarrow> string list" where
  "splitChar d s = splitOn d [] s"

definition splitLines :: "string \<Rightarrow> string list" where
  "splitLines s = splitChar (CHR 0x0A) s"

text \<open>
  \<open>s.split(/\s+/)\<close>: the pieces between maximal runs of white space, with an empty
  piece where the string starts or ends with white space. The flag says that the
  previous character was white space.
\<close>

fun splitWsAux :: "bool \<Rightarrow> string \<Rightarrow> string \<Rightarrow> string list" where
  "splitWsAux inWs cur [] = [rev cur]"
| "splitWsAux inWs cur (c # cs) =
     (if isWs c then
        (if inWs then splitWsAux True cur cs else rev cur # splitWsAux True [] cs)
      else splitWsAux False (c # cur) cs)"

definition splitWs :: "string \<Rightarrow> string list" where
  "splitWs s = splitWsAux False [] s"

text \<open>\<open>xs[i]\<close>: \<open>undefined\<close> out of range.\<close>

definition nth_opt :: "'a list \<Rightarrow> nat \<Rightarrow> 'a option" where
  "nth_opt xs i = (if i < length xs then Some (xs ! i) else None)"

definition endsWith :: "string \<Rightarrow> string \<Rightarrow> bool" where
  "endsWith s suf = (length suf \<le> length s \<and> drop (length s - length suf) s = suf)"

text \<open>The value of a string of decimal digits.\<close>

definition digitsValue :: "string \<Rightarrow> int" where
  "digitsValue ds = foldl (\<lambda>n c. 10 * n + (of_char c - 48)) 0 ds"

text \<open>
  \<open>parseInt(s, 10)\<close>: leading white space, an optional sign, the longest run of digits;
  \<open>None\<close> stands for NaN. The value is exact, where a double rounds above \<open>2^53\<close> and
  becomes Infinity beyond 308 digits.
\<close>

definition parseInt10 :: "string \<Rightarrow> int option" where
  "parseInt10 s =
     (let s1 = dropWhile isWs s;
          (neg, s2) =
            (case s1 of
               [] \<Rightarrow> (False, [])
             | c # cs \<Rightarrow>
                 if c = CHR ''-'' then (True, cs)
                 else if c = CHR ''+'' then (False, cs)
                 else (False, s1));
          ds = takeWhile isDigit s2
      in if ds = [] then None
         else Some (if neg then - digitsValue ds else digitsValue ds))"

text \<open>\<open>_toInt(x)\<close>.\<close>

definition toInt :: "string option \<Rightarrow> int option" where
  "toInt x = (case x of None \<Rightarrow> None | Some s \<Rightarrow> parseInt10 (trim s))"

text \<open>The truth value of a string or \<open>null\<close>: the empty string is falsy.\<close>

definition truthy :: "string option \<Rightarrow> bool" where
  "truthy x = (case x of None \<Rightarrow> False | Some s \<Rightarrow> s \<noteq> [])"

section \<open>Readings and rate state of the sampler\<close>

text \<open>One entry of the object \<open>_getNetDev\<close> returns: the counters of an interface.\<close>

record net_counters =
  rxBytes :: int
  txBytes :: int

record cpu_reading =
  usageSeconds :: rat
  limitCores :: "rat option"

record usage_limit =
  usageBytes :: "int option"
  limitBytes :: "int option"

text \<open>The object \<open>_getCgroupCpuMemSwap\<close> returns.\<close>

record cgroup_reading =
  cg_cpu :: cpu_reading
  cg_mem :: usage_limit
  cg_swap :: usage_limit

text \<open>\<open>this._prev\<close>: the cumulative values of the previous sample.\<close>

record rate_state =
  prev_at :: int
  cpuUsageSeconds :: rat
  totalRx :: int
  totalTx :: int

text \<open>The object \<open>_computeRates\<close> returns; a rate field is a number or \<open>null\<close>.\<close>

record rates =
  rxBps :: "jsnum option"
  txBps :: "jsnum option"
  totalRxBytes :: int
  totalTxBytes :: int
  cpuPercentOfHost :: "jsnum option"
  cpuPercentOfLimit :: "jsnum option"

type_synonym netdev = "(string \<times> net_counters) list"

definition sumRx :: "netdev \<Rightarrow> int" where
  "sumRx netDev = sum_list (map (\<lambda>kv. rxBytes (snd kv)) netDev)"

definition sumTx :: "netdev \<Rightarrow> int" where
  "sumTx netDev = sum_list (map (\<lambda>kv. txBytes (snd kv)) netDev)"

text \<open>
  \<open>_computeRates(now, cgroup, netDev)\<close>. \<open>hostCpus\<close> is \<open>(os.cpus() || []).length\<close>,
  \<open>now\<close> is \<open>Date.now()\<close> in milliseconds, \<open>prev\<close> is \<open>this._prev\<close>; the second
  component of the result is the new \<open>this._prev\<close>.
\<close>

definition computeRates ::
  "nat \<Rightarrow> int \<Rightarrow> cgroup_reading \<Rightarrow> netdev \<Rightarrow> rate_state option \<Rightarrow> rates \<times> rate_state option"
where
  "computeRates hostCpus now cgroup netDev prev =
     (let hostCores = (if hostCpus = 0 then 1 else hostCpus);
          limitCoresV = nullish (limitCores (cg_cpu cgroup)) (of_nat hostCores);
          totalRxV = sumRx netDev;
          totalTxV = sumTx netDev;
          (rx, tx, ofHost, ofLimit) =
            (case prev of
               None \<Rightarrow> (Num 0, Num 0, None, None)
             | Some p \<Rightarrow>
                 (let dt = of_int (now - prev_at p) / 1000 in
                  if 0 < dt then
                    (let dCpu = usageSeconds (cg_cpu cgroup) - cpuUsageSeconds p in
                     (js_div (of_int (totalRxV - totalRx p)) dt,
                      js_div (of_int (totalTxV - totalTx p)) dt,
                      Some (js_times (js_div dCpu (dt * of_nat hostCores)) 100),
                      Some (js_times (js_div dCpu (dt * limitCoresV)) 100)))
                  else (Num 0, Num 0, None, None)))
      in (\<lparr>rxBps = Some (js_max (Num 0) rx),
           txBps = Some (js_max (Num 0) tx),
           totalRxBytes = totalRxV,
           totalTxBytes = totalTxV,
           cpuPercentOfHost = ofHost,
           cpuPercentOfLimit = ofLimit\<rparr>,
          Some \<lparr>prev_at = now,
                cpuUsageSeconds = usageSeconds (cg_cpu cgroup),
                totalRx = totalRxV,
                totalTx = totalTxV\<rparr>))"

section \<open>The host as the sampler sees it\<close>

text \<open>One address of \<open>os.networkInterfaces()\<close>.\<close>

record iface_addr =
  internal :: bool
  family :: string
  address :: string

text \<open>
  Everything a sample reads from outside the process. A call that can throw returns
  \<open>None\<close> where it throws. \<open>pathJoin\<close> is \<open>path.join\<close> and \<open>toNumber\<close> is \<open>Number\<close>
  on a string, both of the platform and taken as given. \<open>dateNow\<close> is the clock read by
  \<open>snapshot\<close>, \<open>dateNowPid1\<close> the one read by \<open>_pid1UptimeSeconds\<close>.
\<close>

record env =
  readFile :: "string \<Rightarrow> string option"
  access :: "string \<Rightarrow> bool"
  readdirProc :: "string list option"
  execDf :: "string \<Rightarrow> string option"
  execGetconf :: "string option"
  os_totalmem :: int
  os_cpus :: nat
  os_loadavg :: "rat \<times> rat \<times> rat"
  os_arch :: string
  os_hostname :: string
  os_platform :: string
  os_release :: string
  os_networkInterfaces :: "(string \<times> iface_addr list) list"
  dateNow :: int
  dateNowPid1 :: int
  processUptime :: rat
  pathJoin :: "string \<Rightarrow> string \<Rightarrow> string"
  toNumber :: "string \<Rightarrow> jsnum"

text \<open>The paths of a descriptor; a path the descriptor lacks or holds as \<open>null\<close> is \<open>None\<close>.\<close>

record cgroup_paths =
  cpuStat :: "string option"
  cpuMax :: "string option"
  memCur :: "string option"
  memMax :: "string option"
  swapCur :: "string option"
  swapMax :: "string option"
  cpuacctUsage :: "string option"
  cpuQuota :: "string option"
  cpuPeriod :: "string option"
  memUsage :: "string option"
  memLimit :: "string option"
  memswUsage :: "string option"
  memswLimit :: "string option"

record cgroup_descriptor =
  mode :: string
  paths :: cgroup_paths

text \<open>The fields of a \<open>ContainerMetrics\<close> object.\<close>

record container_metrics =
  sampleIntervalMs :: int
  diskPath :: string
  includeLoopback :: bool
  uptimeSource :: string
  ramTotalFallback :: string
  prev :: "rate_state option"
  cgroup :: "cgroup_descriptor option"

text \<open>\<open>_exists(p)\<close> and \<open>_readFileSafe(p)\<close>.\<close>

definition exists_path :: "env \<Rightarrow> string \<Rightarrow> bool" where
  "exists_path e path = access e path"

definition readFileSafe :: "env \<Rightarrow> string option \<Rightarrow> string option" where
  "readFileSafe e path =
     (case path of
        None \<Rightarrow> None
      | Some f \<Rightarrow> if f = [] then None else readFile e f)"

section \<open>Resolving the resource-control interface\<close>

definition noPaths :: cgroup_paths where
  "noPaths =
     \<lparr>cpuStat = None, cpuMax = None, memCur = None, memMax = None,
      swapCur = None, swapMax = None,
      cpuacctUsage = None, cpuQuota = None, cpuPeriod = None, memUsage = None,
      memLimit = None, memswUsage = None, memswLimit = None\<rparr>"

text \<open>
  The loop of \<open>_detectCgroup\<close> over the lines of \<open>/proc/self/cgroup\<close>: a line of three
  \<open>:\<close>-separated parts binds each of its non-empty controller names to its path.
\<close>

definition addCgroupLine :: "(string \<rightharpoonup> string) \<Rightarrow> string \<Rightarrow> (string \<rightharpoonup> string)" where
  "addCgroupLine m line =
     (let parts = splitChar (CHR '':'') line in
      if length parts \<noteq> 3 then m
      else
        (let controllers = filter (\<lambda>c. c \<noteq> []) (splitChar (CHR '','') (parts ! 1));
             rel = parts ! 2
         in foldl (\<lambda>m' c. m'(c \<mapsto> rel)) m controllers))"

text \<open>\<open>x ? path.join(base, x) : null\<close>.\<close>

definition joinIf :: "env \<Rightarrow> string \<Rightarrow> string option \<Rightarrow> string option" where
  "joinIf e base x = (if truthy x then Some (pathJoin e base (the x)) else None)"

definition joinUnder :: "env \<Rightarrow> string option \<Rightarrow> string \<Rightarrow> string option" where
  "joinUnder e dir f = (if truthy dir then Some (pathJoin e (the dir) f) else None)"

text \<open>The object \<open>map\<close> of \<open>_detectCgroup\<close>: the path of each controller listed.\<close>

definition controllerMap :: "env \<Rightarrow> (string \<rightharpoonup> string)" where
  "controllerMap e =
     (let r = readFileSafe e (Some ''/proc/self/cgroup'');
          cg = (if truthy r then the r else [])
      in foldl addCgroupLine Map.empty (splitLines (trim cg)))"

definition detectCgroup :: "env \<Rightarrow> cgroup_descriptor" where
  "detectCgroup e =
     (if exists_path e ''/sys/fs/cgroup/cgroup.controllers'' then
        \<lparr>mode = ''v2'',
         paths = noPaths
           \<lparr>cpuStat := Some ''/sys/fs/cgroup/cpu.stat'',
            cpuMax := Some ''/sys/fs/cgroup/cpu.max'',
            memCur := Some ''/sys/fs/cgroup/memory.current'',
            memMax := Some ''/sys/fs/cgroup/memory.max'',
            swapCur := Some ''/sys/fs/cgroup/memory.swap.current'',
            swapMax := Some ''/sys/fs/cgroup/memory.swap.max''\<rparr>\<rparr>
      else
        (let m = controllerMap e;
             cpuacct = joinIf e ''/sys/fs/cgroup/cpuacct'' (m ''cpuacct'');
             cpu = joinIf e ''/sys/fs/cgroup/cpu'' (m ''cpu'');
             mem = joinIf e ''/sys/fs/cgroup/memory'' (m ''memory'')
         in \<lparr>mode = ''v1'',
             paths = noPaths
               \<lparr>cpuacctUsage := joinUnder e cpuacct ''cpuacct.usage'',
                cpuQuota := joinUnder e cpu ''cpu.cfs_quota_us'',
                cpuPeriod := joinUnder e cpu ''cpu.cfs_period_us'',
                memUsage := joinUnder e mem ''memory.usage_in_bytes'',
                memLimit := joinUnder e mem ''memory.limit_in_bytes'',
                memswUsage := joinUnder e mem ''memory.memsw.usage_in_bytes'',
                memswLimit := joinUnder e mem ''memory.memsw.limit_in_bytes''\<rparr>\<rparr>))"

text \<open>\<open>if (!this._cgroup) this._cgroup = await this._detectCgroup()\<close>.\<close>

definition ensureCgroup :: "env \<Rightarrow> container_metrics \<Rightarrow> container_metrics" where
  "ensureCgroup e m =
     (case cgroup m of
        None \<Rightarrow> m\<lparr>cgroup := Some (detectCgroup e)\<rparr>
      | Some d \<Rightarrow> m)"

definition resolved :: "env \<Rightarrow> container_metrics \<Rightarrow> cgroup_descriptor" where
  "resolved e m = (case cgroup m of None \<Rightarrow> detectCgroup e | Some d \<Rightarrow> d)"

section \<open>Reading the resource-control files\<close>

text \<open>
  \<open>_parseKeyValue(text)\<close>: the object maps a key to a number or \<open>null\<close>; a later line
  replaces an earlier one with the same key.
\<close>

definition addKeyValue :: "(string \<rightharpoonup> int option) \<Rightarrow> string \<Rightarrow> (string \<rightharpoonup> int option)" where
  "addKeyValue out line =
     (let ws = splitWs (trim line) in
      case nth_opt ws 0 of
        None \<Rightarrow> out
      | Some k \<Rightarrow> if k \<noteq> [] then out(k \<mapsto> toInt (nth_opt ws 1)) else out)"

definition parseKeyValue :: "string option \<Rightarrow> (string \<rightharpoonup> int option)" where
  "parseKeyValue text =
     (if \<not> truthy text then Map.empty
      else foldl addKeyValue Map.empty (splitLines (trim (the text))))"

text \<open>\<open>_parseCpuMax(text)\<close>.\<close>

definition parseCpuMax :: "string option \<Rightarrow> rat option" where
  "parseCpuMax text =
     (if \<not> truthy text then None
      else
        (let ws = splitWs (trim (the text));
             quota = nth_opt ws 0;
             period = nth_opt ws 1
         in if \<not> truthy quota \<or> \<not> truthy period then None
            else if quota = Some ''max'' then None
            else
              (case (toInt quota, toInt period) of
                 (Some q, Some per) \<Rightarrow>
                   if 0 < per then Some (of_int q / of_int per) else None
               | _ \<Rightarrow> None)))"

text \<open>\<open>(this.ramTotalFallback === 'host') ? os.totalmem() : 0\<close>.\<close>

definition ramFallback :: "env \<Rightarrow> container_metrics \<Rightarrow> int" where
  "ramFallback e m = (if ramTotalFallback m = ''host'' then os_totalmem e else 0)"

text \<open>A limit file of the unified interface: \<open>(s && s.trim() !== 'max') ? _toInt(s) : null\<close>.\<close>

definition limitUnlessMax :: "string option \<Rightarrow> int option" where
  "limitUnlessMax s = (if truthy s \<and> trim (the s) \<noteq> ''max'' then toInt s else None)"

text \<open>The branch of \<open>_getCgroupCpuMemSwap\<close> for mode \<open>v2\<close>.\<close>

definition readCgroupV2 :: "env \<Rightarrow> container_metrics \<Rightarrow> cgroup_paths \<Rightarrow> cgroup_reading" where
  "readCgroupV2 e m ps =
     (let cpuStatT = readFileSafe e (cpuStat ps);
          cpuMaxT = readFileSafe e (cpuMax ps);
          memCurT = readFileSafe e (memCur ps);
          memMaxT = readFileSafe e (memMax ps);
          swapCurT = readFileSafe e (swapCur ps);
          swapMaxT = readFileSafe e (swapMax ps);
          kv = parseKeyValue cpuStatT;
          usageUsec = (case kv ''usage_usec'' of Some (Some n) \<Rightarrow> n | _ \<Rightarrow> 0);
          limitCoresV = parseCpuMax cpuMaxT;
          memUsageBytes = toInt memCurT;
          memLimit0 = limitUnlessMax memMaxT;
          memLimitBytes =
            (case memLimit0 of
               None \<Rightarrow> ramFallback e m
             | Some l \<Rightarrow> if l = 0 \<or> l \<le> 0 then ramFallback e m else l);
          swapUsageBytes = nullish (toInt swapCurT) 0;
          swapLimitBytes =
            (if truthy swapMaxT \<and> trim (the swapMaxT) \<noteq> ''max''
             then nullish (toInt swapMaxT) 0 else 0)
      in \<lparr>cg_cpu = \<lparr>usageSeconds = of_int usageUsec / 1000000, limitCores = limitCoresV\<rparr>,
          cg_mem = \<lparr>usageBytes = memUsageBytes, limitBytes = Some memLimitBytes\<rparr>,
          cg_swap = \<lparr>usageBytes = Some swapUsageBytes, limitBytes = Some swapLimitBytes\<rparr>\<rparr>)"

text \<open>
  The branch for the legacy interface. \<open>Number.MAX_SAFE_INTEGER\<close> is \<open>2^53 - 1\<close>. The
  memory limit that the swap limit is taken from is the variable after the fallback has
  replaced it, as in the source.
\<close>

definition readCgroupV1 :: "env \<Rightarrow> container_metrics \<Rightarrow> cgroup_paths \<Rightarrow> cgroup_reading" where
  "readCgroupV1 e m ps =
     (let usageNs = readFileSafe e (cpuacctUsage ps);
          quotaUs = readFileSafe e (cpuQuota ps);
          periodUs = readFileSafe e (cpuPeriod ps);
          memUsageT = readFileSafe e (memUsage ps);
          memLimitT = readFileSafe e (memLimit ps);
          memswUsageT = readFileSafe e (memswUsage ps);
          memswLimitT = readFileSafe e (memswLimit ps);
          cpuUsageSecondsV = of_int (nullish (toInt usageNs) 0) / 1000000000;
          limitCoresV =
            (case (toInt quotaUs, toInt periodUs) of
               (Some q, Some per) \<Rightarrow>
                 if 0 < q \<and> 0 < per then Some (of_int q / of_int per) else None
             | _ \<Rightarrow> None);
          memUsageBytes = toInt memUsageT;
          memLimitBytes =
            (case toInt memLimitT of
               None \<Rightarrow> ramFallback e m
             | Some l \<Rightarrow>
                 if l = 0 \<or> (9007199254740991 :: rat) / 2 \<le> of_int l
                 then ramFallback e m else l);
          memswUsageBytes = toInt memswUsageT;
          memswLimitBytes = toInt memswLimitT;
          swapUsageBytes =
            (case (memswUsageBytes, memUsageBytes) of
               (Some su, Some u) \<Rightarrow> max 0 (su - u)
             | _ \<Rightarrow> 0);
          swapLimitBytes =
            (case memswLimitBytes of
               Some sl \<Rightarrow> max 0 (sl - memLimitBytes)
             | None \<Rightarrow> 0)
      in \<lparr>cg_cpu = \<lparr>usageSeconds = cpuUsageSecondsV, limitCores = limitCoresV\<rparr>,
          cg_mem = \<lparr>usageBytes = memUsageBytes, limitBytes = Some memLimitBytes\<rparr>,
          cg_swap = \<lparr>usageBytes = Some swapUsageBytes, limitBytes = Some swapLimitBytes\<rparr>\<rparr>)"

text \<open>\<open>_getCgroupCpuMemSwap()\<close>, with the object after the descriptor has been cached.\<close>

definition getCgroupCpuMemSwap ::
  "env \<Rightarrow> container_metrics \<Rightarrow> cgroup_reading \<times> container_metrics"
where
  "getCgroupCpuMemSwap e m =
     (let m' = ensureCgroup e m;
          d = resolved e m
      in (if mode d = ''v2'' then readCgroupV2 e m (paths d) else readCgroupV1 e m (paths d),
          m'))"

section \<open>Patterns of the sampler\<close>

text \<open>
  The regular expressions of the source, each written out as the function it computes.
  A line terminator is LF or CR; \<open>.\<close> matches any other character. With the flag
  \<open>m\<close>, \<open>^\<close> matches at the start of the text and after a line terminator, \<open>$\<close> at the
  end of the text and before a line terminator.
\<close>

definition isLineTerm :: "char \<Rightarrow> bool" where
  "isLineTerm c = (of_char c \<in> {10, 13 :: nat})"

fun stripPrefix :: "string \<Rightarrow> string \<Rightarrow> string option" where
  "stripPrefix [] s = Some s"
| "stripPrefix (x # xs) [] = None"
| "stripPrefix (x # xs) (c # cs) = (if x = c then stripPrefix xs cs else None)"

text \<open>The first start of a line at which \<open>f\<close> matches.\<close>

fun searchLineStarts :: "(string \<Rightarrow> 'a option) \<Rightarrow> bool \<Rightarrow> string \<Rightarrow> 'a option" where
  "searchLineStarts f atStart [] = (if atStart then f [] else None)"
| "searchLineStarts f atStart (c # cs) =
     (case (if atStart then f (c # cs) else None) of
        Some r \<Rightarrow> Some r
      | None \<Rightarrow> searchLineStarts f (isLineTerm c) cs)"

text \<open>\<open>/^btime\s+(\d+)$/m\<close>: the digits captured.\<close>

definition btimeAt :: "string \<Rightarrow> string option" where
  "btimeAt s =
     (case stripPrefix ''btime'' s of
        None \<Rightarrow> None
      | Some r \<Rightarrow>
          (let w = takeWhile isWs r;
               d = takeWhile isDigit (dropWhile isWs r);
               rest = dropWhile isDigit (dropWhile isWs r)
           in if w \<noteq> [] \<and> d \<noteq> [] \<and> (case rest of [] \<Rightarrow> True | c # _ \<Rightarrow> isLineTerm c)
              then Some d else None))"

definition matchBtime :: "string \<Rightarrow> string option" where
  "matchBtime text = searchLineStarts btimeAt True text"

text \<open>\<open>/^Threads:\s+(\d+)/m\<close>: the digits captured.\<close>

definition threadsAt :: "string \<Rightarrow> string option" where
  "threadsAt s =
     (case stripPrefix ''Threads:'' s of
        None \<Rightarrow> None
      | Some r \<Rightarrow>
          (let w = takeWhile isWs r;
               d = takeWhile isDigit (dropWhile isWs r)
           in if w \<noteq> [] \<and> d \<noteq> [] then Some d else None))"

definition matchThreads :: "string \<Rightarrow> string option" where
  "matchThreads text = searchLineStarts threadsAt True text"

text \<open>
  \<open>/^NAME\s*:\s*(.+)$/m\<close> for a literal \<open>NAME\<close>: the capture. The white space after the
  colon is taken greedily; when the text ends there, the match backtracks to the last
  character of that white space that is no line terminator.
\<close>

definition fieldAt :: "string \<Rightarrow> string \<Rightarrow> string option" where
  "fieldAt name s =
     (case stripPrefix name s of
        None \<Rightarrow> None
      | Some r \<Rightarrow>
          (case dropWhile isWs r of
             [] \<Rightarrow> None
           | c # r2 \<Rightarrow>
               if c \<noteq> CHR '':'' then None
               else
                 (let w = takeWhile isWs r2; rest = dropWhile isWs r2 in
                  if rest \<noteq> [] then Some (takeWhile (\<lambda>x. \<not> isLineTerm x) rest)
                  else
                    (case dropWhile isLineTerm (rev w) of
                       [] \<Rightarrow> None
                     | x # _ \<Rightarrow> Some [x]))))"

definition matchField :: "string \<Rightarrow> string \<Rightarrow> string option" where
  "matchField name text = searchLineStarts (fieldAt name) True text"

text \<open>\<open>/^([A-Z0-9_]+)=(.*)$/\<close> on one line: the two captures.\<close>

definition isKeyChar :: "char \<Rightarrow> bool" where
  "isKeyChar c =
     ((65 \<le> (of_char c :: nat) \<and> (of_char c :: nat) \<le> 90) \<or> isDigit c \<or> c = CHR ''_'')"

definition matchOsLine :: "string \<Rightarrow> (string \<times> string) option" where
  "matchOsLine line =
     (let k = takeWhile isKeyChar line in
      case dropWhile isKeyChar line of
        [] \<Rightarrow> None
      | c # v \<Rightarrow>
          if k \<noteq> [] \<and> c = CHR ''='' \<and> \<not> list_ex isLineTerm v then Some (k, v) else None)"

text \<open>\<open>s.replace(/^"/, '').replace(/"$/, '')\<close>.\<close>

definition stripQuotes :: "string \<Rightarrow> string" where
  "stripQuotes s =
     (let s1 = (case s of [] \<Rightarrow> [] | c # cs \<Rightarrow> if c = CHR 0x22 then cs else s) in
      if s1 \<noteq> [] \<and> last s1 = CHR 0x22 then butlast s1 else s1)"

text \<open>\<open>/^\d+$/.test(x)\<close>.\<close>

definition allDigits :: "string \<Rightarrow> bool" where
  "allDigits x = (x \<noteq> [] \<and> list_all isDigit x)"

text \<open>\<open>s.lastIndexOf(c)\<close>: \<open>None\<close> stands for \<open>-1\<close>.\<close>

definition lastIndexOf :: "char \<Rightarrow> string \<Rightarrow> nat option" where
  "lastIndexOf c s =
     (let k = length (takeWhile (\<lambda>x. x \<noteq> c) (rev s)) in
      if k = length s then None else Some (length s - 1 - k))"

text \<open>\<open>xs[i]\<close> for an index that may be negative.\<close>

definition nth_int :: "'a list \<Rightarrow> int \<Rightarrow> 'a option" where
  "nth_int xs i = (if 0 \<le> i then nth_opt xs (nat i) else None)"

section \<open>The readers of a sample\<close>

record ips =
  ipv4 :: "string option"
  ipv6 :: "string option"

record system_basic =
  hostname :: string
  platform :: string
  kernel :: string
  arch :: string
  cpuModel :: "string option"
  cpuCores :: nat
  osRelease :: "(string \<rightharpoonup> string) option"
  osPretty :: "string option"
  sys_ips :: ips

record load_avg =
  load1 :: rat
  load5 :: rat
  load15 :: rat

record disk_usage =
  totalBytes :: "int option"
  usedBytes :: "int option"

record conn_summary =
  tcp :: nat
  udp :: nat
  unix :: nat

record proc_counts =
  processCount :: nat
  threadCount :: nat

text \<open>\<open>_pickIps()\<close>.\<close>

definition pickAddr :: "ips \<Rightarrow> iface_addr \<Rightarrow> ips" where
  "pickAddr acc x =
     (if internal x then acc
      else
        (let a4 = (if family x = ''IPv4'' \<and> \<not> truthy (ipv4 acc) then Some (address x) else ipv4 acc);
             a6 = (if family x = ''IPv6'' \<and> \<not> truthy (ipv6 acc) then Some (address x) else ipv6 acc)
         in \<lparr>ipv4 = a4, ipv6 = a6\<rparr>))"

definition pickIps :: "env \<Rightarrow> container_metrics \<Rightarrow> ips" where
  "pickIps e m =
     foldl (\<lambda>acc entry.
              if \<not> includeLoopback m \<and> fst entry = ''lo'' then acc
              else foldl pickAddr acc (snd entry))
           \<lparr>ipv4 = None, ipv6 = None\<rparr> (os_networkInterfaces e)"

text \<open>\<open>_readOsRelease()\<close>.\<close>

definition addOsLine :: "(string \<rightharpoonup> string) \<Rightarrow> string \<Rightarrow> (string \<rightharpoonup> string)" where
  "addOsLine obj line =
     (case matchOsLine line of
        None \<Rightarrow> obj
      | Some kv \<Rightarrow> obj(fst kv \<mapsto> stripQuotes (trim (snd kv))))"

definition readOsRelease :: "env \<Rightarrow> (string \<rightharpoonup> string) option" where
  "readOsRelease e =
     (let text = readFileSafe e (Some ''/etc/os-release'') in
      if \<not> truthy text then None
      else Some (foldl addOsLine Map.empty (splitLines (the text))))"

text \<open>\<open>_readCpuModel()\<close>.\<close>

definition readCpuModel :: "env \<Rightarrow> string option" where
  "readCpuModel e =
     (let text = readFileSafe e (Some ''/proc/cpuinfo'') in
      if \<not> truthy text then None
      else
        (let t = the text;
             m1 = matchField ''model name'' t;
             m2 = matchField ''Hardware'' t;
             m3 = matchField ''Processor'' t;
             model = (if truthy m1 then m1 else if truthy m2 then m2 else m3)
         in if truthy model then Some (trim (the model)) else None))"

text \<open>\<open>_getSystemBasic()\<close>.\<close>

definition getSystemBasic :: "env \<Rightarrow> container_metrics \<Rightarrow> system_basic" where
  "getSystemBasic e m =
     (let osRel = readOsRelease e;
          model = readCpuModel e;
          pretty = (case osRel of None \<Rightarrow> None | Some obj \<Rightarrow> obj ''PRETTY_NAME'')
      in \<lparr>hostname = os_hostname e,
          platform = os_platform e,
          kernel = os_release e,
          arch = os_arch e,
          cpuModel = model,
          cpuCores = (if os_cpus e = 0 then 1 else os_cpus e),
          osRelease = osRel,
          osPretty = (if truthy pretty then pretty else None),
          sys_ips = pickIps e m\<rparr>)"

text \<open>\<open>_getLoadAvg()\<close>.\<close>

definition getLoadAvg :: "env \<Rightarrow> load_avg" where
  "getLoadAvg e =
     (case os_loadavg e of (l1, l5, l15) \<Rightarrow> \<lparr>load1 = l1, load5 = l5, load15 = l15\<rparr>)"

text \<open>\<open>_getDiskUsage(targetPath)\<close>: a failing \<open>df\<close> is caught.\<close>

definition kbToBytes :: "int option \<Rightarrow> int option" where
  "kbToBytes kb = (case kb of None \<Rightarrow> None | Some k \<Rightarrow> Some (k * 1024))"

definition getDiskUsage :: "env \<Rightarrow> string \<Rightarrow> disk_usage" where
  "getDiskUsage e targetPath =
     (case execDf e targetPath of
        None \<Rightarrow> \<lparr>totalBytes = None, usedBytes = None\<rparr>
      | Some stdout \<Rightarrow>
          (let lines = splitLines (trim stdout) in
           if length lines < 2 then \<lparr>totalBytes = None, usedBytes = None\<rparr>
           else
             (let cols = splitWs (lines ! 1);
                  totalKB = toInt (nth_int cols (int (length cols) - 5));
                  usedKB = toInt (nth_int cols (int (length cols) - 4))
              in \<lparr>totalBytes = kbToBytes totalKB, usedBytes = kbToBytes usedKB\<rparr>)))"

text \<open>
  \<open>_getNetDev()\<close>. The object is a list of entries; \<open>assign\<close> is \<open>out[k] = v\<close>.
\<close>

fun assign :: "'k \<Rightarrow> 'v \<Rightarrow> ('k \<times> 'v) list \<Rightarrow> ('k \<times> 'v) list" where
  "assign k v [] = [(k, v)]"
| "assign k v (kv # r) = (if fst kv = k then (k, v) # r else kv # assign k v r)"

definition addNetLine :: "container_metrics \<Rightarrow> netdev \<Rightarrow> string \<Rightarrow> netdev" where
  "addNetLine m out line =
     (let parts = splitChar (CHR '':'') line;
          rest = nth_opt parts 1
      in if \<not> truthy rest then out
         else
           (let iface = trim (parts ! 0) in
            if \<not> includeLoopback m \<and> iface = ''lo'' then out
            else
              (let cols = splitWs (trim (the rest)) in
               if length cols < 16 then out
               else assign iface
                      \<lparr>rxBytes = nullish (toInt (nth_opt cols 0)) 0,
                       txBytes = nullish (toInt (nth_opt cols 8)) 0\<rparr> out)))"

definition getNetDev :: "env \<Rightarrow> container_metrics \<Rightarrow> netdev" where
  "getNetDev e m =
     (let r = readFileSafe e (Some ''/proc/net/dev'');
          text = (if truthy r then the r else []);
          lines = splitLines (trim text)
      in foldl (addNetLine m) [] (drop 2 lines))"

text \<open>\<open>_getConnSummary()\<close>.\<close>

definition countLines :: "string option \<Rightarrow> nat" where
  "countLines t = (if \<not> truthy t then 0 else length (splitLines (trim (the t))) - 1)"

definition getConnSummary :: "env \<Rightarrow> conn_summary" where
  "getConnSummary e =
     \<lparr>tcp = countLines (readFileSafe e (Some ''/proc/net/tcp''))
            + countLines (readFileSafe e (Some ''/proc/net/tcp6'')),
      udp = countLines (readFileSafe e (Some ''/proc/net/udp''))
            + countLines (readFileSafe e (Some ''/proc/net/udp6'')),
      unix = countLines (readFileSafe e (Some ''/proc/net/unix''))\<rparr>"

text \<open>
  \<open>_getProcessAndThreads()\<close>. The workers share one index and add to two counters, so
  the entries are visited once each; the counts are those of a single pass.
\<close>

definition addProc :: "env \<Rightarrow> proc_counts \<Rightarrow> string \<Rightarrow> proc_counts" where
  "addProc e acc pid =
     (let status = readFileSafe e (Some (''/proc/'' @ pid @ ''/status'')) in
      if \<not> truthy status then acc
      else
        (case matchThreads (the status) of
           None \<Rightarrow> acc\<lparr>processCount := processCount acc + 1\<rparr>
         | Some d \<Rightarrow>
             \<lparr>processCount = processCount acc + 1,
              threadCount = threadCount acc + nat (digitsValue d)\<rparr>))"

definition getProcessAndThreads :: "env \<Rightarrow> proc_counts" where
  "getProcessAndThreads e =
     (let entries = (case readdirProc e of None \<Rightarrow> [] | Some xs \<Rightarrow> xs);
          pids = filter allDigits entries
      in foldl (addProc e) \<lparr>processCount = 0, threadCount = 0\<rparr> pids)"

section \<open>Uptime\<close>

text \<open>The errors \<open>_pid1UptimeSeconds\<close> throws.\<close>

datatype error = MissingProcFiles | BadProc1Stat | BadStarttime | MissingBtime

text \<open>\<open>_looksLikeHostPid1()\<close>: the loop returns false at the first line that is no root path.\<close>

definition looksLikeHostPid1 :: "env \<Rightarrow> bool" where
  "looksLikeHostPid1 e =
     (let cg1 = readFileSafe e (Some ''/proc/1/cgroup'') in
      if \<not> truthy cg1 then False
      else
        (let lines = filter (\<lambda>l. l \<noteq> []) (splitLines (trim (the cg1))) in
         list_all (\<lambda>ln. ln = ''0::/'' \<or> endsWith ln '':/'' \<or> endsWith ln ''::/'') lines))"

text \<open>The tick rate: the output of \<open>getconf CLK_TCK\<close> when it is a positive number, else 100.\<close>

definition clockTicks :: "env \<Rightarrow> rat" where
  "clockTicks e =
     (case execGetconf e of
        None \<Rightarrow> 100
      | Some stdout \<Rightarrow>
          (case toNumber e (trim stdout) of
             Num v \<Rightarrow> if 0 < v then v else 100
           | _ \<Rightarrow> 100))"

text \<open>
  \<open>_pid1UptimeSeconds()\<close>. The number of the boot time is the value of the captured
  digits, taken exactly.
\<close>

definition pid1UptimeSeconds :: "env \<Rightarrow> error + rat" where
  "pid1UptimeSeconds e =
     (let stat1 = readFileSafe e (Some ''/proc/1/stat'');
          statBoot = readFileSafe e (Some ''/proc/stat'')
      in if \<not> truthy stat1 \<or> \<not> truthy statBoot then Inl MissingProcFiles
         else
           (case lastIndexOf (CHR '')'') (the stat1) of
              None \<Rightarrow> Inl BadProc1Stat
            | Some rparen \<Rightarrow>
                (let after = drop (rparen + 2) (the stat1);
                     parts = splitWs (trim after)
                 in case nth_opt parts 20 of
                      None \<Rightarrow> Inl BadStarttime
                    | Some startTicksStr \<Rightarrow>
                        (case toNumber e startTicksStr of
                           Num startTicks \<Rightarrow>
                             (case matchBtime (the statBoot) of
                                None \<Rightarrow> Inl MissingBtime
                              | Some digits \<Rightarrow>
                                  (let btime = of_int (digitsValue digits);
                                       clkTck = clockTicks e;
                                       startSecondsSinceBoot = startTicks / clkTck;
                                       startEpoch = btime + startSecondsSinceBoot;
                                       nowEpoch = of_int (dateNowPid1 e) / 1000
                                   in Inr (max 0 (nowEpoch - startEpoch))))
                         | _ \<Rightarrow> Inl BadStarttime))))"

text \<open>\<open>_getContainerUptimeSeconds()\<close>: a throw of the computation is caught as \<open>null\<close>.\<close>

definition getContainerUptimeSeconds :: "env \<Rightarrow> container_metrics \<Rightarrow> rat" where
  "getContainerUptimeSeconds e m =
     (if uptimeSource m = ''process'' then processUptime e
      else
        (let pid1Uptime = (case pid1UptimeSeconds e of Inl _ \<Rightarrow> None | Inr v \<Rightarrow> Some v) in
         if uptimeSource m = ''pid1'' then nullish pid1Uptime (processUptime e)
         else if looksLikeHostPid1 e then processUptime e
         else nullish pid1Uptime (processUptime e)))"

section \<open>The sampler\<close>

text \<open>The options of the constructor; an option that is not given is \<open>None\<close>.\<close>

record metrics_options =
  opt_sampleIntervalMs :: "int option"
  opt_diskPath :: "string option"
  opt_includeLoopback :: "bool option"
  opt_uptimeSource :: "string option"
  opt_ramTotalFallback :: "string option"

definition lowerChar :: "char \<Rightarrow> char" where
  "lowerChar c =
     (let n = (of_char c :: nat) in
      if (65 \<le> n \<and> n \<le> 90) \<or> (192 \<le> n \<and> n \<le> 222 \<and> n \<noteq> 215)
      then char_of (n + 32) else c)"

definition toLowerCase :: "string \<Rightarrow> string" where
  "toLowerCase s = map lowerChar s"

text \<open>\<open>new ContainerMetrics(options)\<close>.\<close>

definition newContainerMetrics :: "metrics_options \<Rightarrow> container_metrics" where
  "newContainerMetrics options =
     \<lparr>sampleIntervalMs = nullish (opt_sampleIntervalMs options) 1000,
      diskPath = nullish (opt_diskPath options) ''/'',
      includeLoopback = nullish (opt_includeLoopback options) False,
      uptimeSource =
        toLowerCase (if truthy (opt_uptimeSource options)
                     then the (opt_uptimeSource options) else ''auto''),
      ramTotalFallback =
        toLowerCase (if truthy (opt_ramTotalFallback options)
                     then the (opt_ramTotalFallback options) else ''host''),
      prev = None,
      cgroup = None\<rparr>"

record snapshot_system =
  basic :: system_basic
  diskTotalBytes :: "int option"
  memLimitBytes :: "int option"
  swapLimitBytes :: "int option"
  cgroupMode :: "string option"

record cpu_metrics =
  usagePercentOfLimit :: "jsnum option"
  usagePercentOfHost :: "jsnum option"
  cpu_limitCores :: "rat option"

record total_used =
  tu_total :: "int option"
  tu_used :: "int option"

record network_metrics =
  upBps :: "jsnum option"
  downBps :: "jsnum option"
  totalUpBytes :: int
  totalDownBytes :: int
  byInterface :: netdev
  net_ips :: ips

record snapshot_metrics =
  cpu :: cpu_metrics
  ram :: total_used
  swap :: total_used
  load :: load_avg
  disk :: total_used
  network :: network_metrics
  connections :: conn_summary
  process :: nat
  threads :: nat
  uptimeSeconds :: rat

text \<open>The snapshot; \<open>snap_at\<close> is the time stamp, before it is printed in ISO form.\<close>

record snapshot =
  snap_at :: int
  system :: snapshot_system
  metrics :: snapshot_metrics

text \<open>
  \<open>snapshot()\<close>, with the object after the call. The eight readers run on one state of
  the host.
\<close>

definition snapshot :: "env \<Rightarrow> container_metrics \<Rightarrow> snapshot \<times> container_metrics" where
  "snapshot e m =
     (let m1 = ensureCgroup e m;
          now = dateNow e;
          basicSystem = getSystemBasic e m1;
          cgroupCpuMemSwap = fst (getCgroupCpuMemSwap e m1);
          loadV = getLoadAvg e;
          diskV = getDiskUsage e (diskPath m1);
          netDev = getNetDev e m1;
          conn = getConnSummary e;
          proc = getProcessAndThreads e;
          uptime = getContainerUptimeSeconds e m1;
          computed = computeRates (os_cpus e) now cgroupCpuMemSwap netDev (prev m1);
          modeV = (case cgroup m1 of None \<Rightarrow> None | Some d \<Rightarrow> Some (mode d))
      in (\<lparr>snap_at = now,
           system =
             \<lparr>basic = basicSystem,
              diskTotalBytes = totalBytes diskV,
              memLimitBytes = limitBytes (cg_mem cgroupCpuMemSwap),
              swapLimitBytes = limitBytes (cg_swap cgroupCpuMemSwap),
              cgroupMode = (if truthy modeV then modeV else None)\<rparr>,
           metrics =
             \<lparr>cpu =
                \<lparr>usagePercentOfLimit = cpuPercentOfLimit (fst computed),
                 usagePercentOfHost = cpuPercentOfHost (fst computed),
                 cpu_limitCores = limitCores (cg_cpu cgroupCpuMemSwap)\<rparr>,
              ram =
                \<lparr>tu_total = limitBytes (cg_mem cgroupCpuMemSwap),
                 tu_used = usageBytes (cg_mem cgroupCpuMemSwap)\<rparr>,
              swap =
                \<lparr>tu_total = limitBytes (cg_swap cgroupCpuMemSwap),
                 tu_used = usageBytes (cg_swap cgroupCpuMemSwap)\<rparr>,
              load = loadV,
              disk = \<lparr>tu_total = totalBytes diskV, tu_used = usedBytes diskV\<rparr>,
              network =
                \<lparr>upBps = txBps (fst computed),
                 downBps = rxBps (fst computed),
                 totalUpBytes = totalTxBytes (fst computed),
                 totalDownBytes = totalRxBytes (fst computed),
                 byInterface = netDev,
                 net_ips = sys_ips basicSystem\<rparr>,
              connections = conn,
              process = processCount proc,
              threads = threadCount proc,
              uptimeSeconds = uptime\<rparr>\<rparr>,
          m1\<lparr>prev := snd computed\<rparr>))"

text \<open>The identity payload of \<open>getBasicInfoForKomari(agentVersion)\<close>.\<close>

record basic_info =
  bi_arch :: string
  cpu_cores :: nat
  cpu_name :: "string option"
  disk_total :: int
  bi_ipv4 :: string
  bi_ipv6 :: string
  mem_total :: int
  swap_total :: int
  os :: string
  kernel_version :: string
  version :: string
  virtualization :: string

definition getBasicInfoForKomari ::
  "env \<Rightarrow> container_metrics \<Rightarrow> string \<Rightarrow> basic_info \<times> container_metrics"
where
  "getBasicInfoForKomari e m agentVersion =
     (let m1 = ensureCgroup e m;
          sys = getSystemBasic e m1;
          c = fst (getCgroupCpuMemSwap e m1);
          diskV = getDiskUsage e (diskPath m1)
      in (\<lparr>bi_arch = arch sys,
           cpu_cores = cpuCores sys,
           cpu_name = cpuModel sys,
           disk_total = nullish (totalBytes diskV) 0,
           bi_ipv4 = nullish (ipv4 (sys_ips sys)) [],
           bi_ipv6 = nullish (ipv6 (sys_ips sys)) [],
           mem_total = nullish (limitBytes (cg_mem c)) 0,
           swap_total = nullish (limitBytes (cg_swap c)) 0,
           os = nullish (osPretty sys) (platform sys),
           kernel_version = kernel sys,
           version = agentVersion,
           virtualization = ''Docker''\<rparr>,
          m1))"

section \<open>The streaming frame\<close>




section \<open>The reporting client\<close>

text \<open>
  The connection and timer state of a \<open>KomariAgent\<close>, with the part of the event loop it
  acts on: the interval timers that are running, the time-outs that are pending, and the
  sockets created so far. A handler runs to its end before the next event.
\<close>

datatype timer_kind = ReportPush | InfoPush

record interval_timer =
  handle :: nat
  kind :: timer_kind
  period :: int

record agent =
  reportIntervalMs :: int
  infoIntervalMs :: int
  reconnectIntervalMs :: int
  ws :: "nat option"
  reportTimer :: "nat option"
  infoTimer :: "nat option"
  stopped :: bool
  seq_no :: nat
  nextHandle :: nat
  intervals :: "interval_timer list"
  timeouts :: "(nat \<times> int) list"
  sockets :: nat

record agent_options =
  endpoint :: "string option"
  token :: "string option"
  opt_reportIntervalMs :: "int option"
  opt_infoIntervalMs :: "int option"
  opt_reconnectIntervalMs :: "int option"

datatype agent_error = EndpointAndTokenRequired

text \<open>\<open>new KomariAgent(options)\<close>, as far as the connection state goes.\<close>

definition newAgent :: "agent_options \<Rightarrow> agent_error + agent" where
  "newAgent options =
     (if \<not> truthy (endpoint options) \<or> \<not> truthy (token options)
      then Inl EndpointAndTokenRequired
      else Inr
        \<lparr>reportIntervalMs = nullish (opt_reportIntervalMs options) 1000,
         infoIntervalMs = nullish (opt_infoIntervalMs options) (5 * 60 * 1000),
         reconnectIntervalMs = nullish (opt_reconnectIntervalMs options) 5000,
         ws = None,
         reportTimer = None,
         infoTimer = None,
         stopped = True,
         seq_no = 0,
         nextHandle = 0,
         intervals = [],
         timeouts = [],
         sockets = 0\<rparr>)"

text \<open>\<open>if (h) clearInterval(h)\<close>.\<close>

definition clearIntervalOpt :: "nat option \<Rightarrow> agent \<Rightarrow> agent" where
  "clearIntervalOpt h a =
     (case h of
        None \<Rightarrow> a
      | Some i \<Rightarrow> a\<lparr>intervals := filter (\<lambda>t. handle t \<noteq> i) (intervals a)\<rparr>)"

text \<open>\<open>setInterval(f, ms)\<close>: the new handle and the state.\<close>

definition setIntervalOf :: "timer_kind \<Rightarrow> int \<Rightarrow> agent \<Rightarrow> nat \<times> agent" where
  "setIntervalOf k ms a =
     (nextHandle a,
      a\<lparr>intervals := intervals a @ [\<lparr>handle = nextHandle a, kind = k, period = ms\<rparr>],
        nextHandle := nextHandle a + 1\<rparr>)"

text \<open>\<open>_connectWebSocket()\<close>: a new socket becomes \<open>this._ws\<close>.\<close>

definition connectWebSocket :: "agent \<Rightarrow> agent" where
  "connectWebSocket a =
     (if stopped a then a
      else a\<lparr>ws := Some (sockets a), sockets := sockets a + 1\<rparr>)"

text \<open>\<open>_scheduleReconnect()\<close>.\<close>

definition scheduleReconnect :: "agent \<Rightarrow> agent" where
  "scheduleReconnect a =
     (if stopped a then a
      else
        (let a1 = (clearIntervalOpt (reportTimer a) a)\<lparr>reportTimer := None\<rparr>
         in a1\<lparr>timeouts := timeouts a1 @ [(nextHandle a1, reconnectIntervalMs a1)],
               nextHandle := nextHandle a1 + 1\<rparr>))"

text \<open>The handler of the socket's \<open>open\<close> event.\<close>

definition onOpen :: "agent \<Rightarrow> agent" where
  "onOpen a =
     (let a1 = clearIntervalOpt (reportTimer a) a;
          r = setIntervalOf ReportPush (reportIntervalMs a1) a1
      in (snd r)\<lparr>reportTimer := Some (fst r)\<rparr>)"

text \<open>\<open>stop()\<close>.\<close>

definition stop :: "agent \<Rightarrow> agent" where
  "stop a =
     (let a1 = a\<lparr>stopped := True\<rparr>;
          a2 = clearIntervalOpt (infoTimer a1) a1;
          a3 = clearIntervalOpt (reportTimer a2) a2
      in a3\<lparr>infoTimer := None, reportTimer := None, ws := None\<rparr>)"

text \<open>
  The events. \<open>start()\<close> is two events, its first statement and its continuation after
  the warm-up snapshot and the first identity push; \<open>ReportSent\<close> is the continuation of
  \<open>_sendReport\<close> after its snapshot; \<open>ReconnectDue\<close> is the oldest pending time-out.
\<close>

datatype event =
  Start | Started | Stop
  | WsOpen | WsMessage | WsClose | WsError
  | ReconnectDue | ReportTick | ReportSent | InfoTick

fun step :: "event \<Rightarrow> agent \<Rightarrow> agent" where
  "step Start a = a\<lparr>stopped := False\<rparr>"
| "step Started a =
     (let r = setIntervalOf InfoPush (infoIntervalMs a) a
      in connectWebSocket ((snd r)\<lparr>infoTimer := Some (fst r)\<rparr>))"
| "step Stop a = stop a"
| "step WsOpen a = onOpen a"
| "step WsMessage a = a"
| "step WsClose a = scheduleReconnect a"
| "step WsError a = a"
| "step ReconnectDue a =
     (case timeouts a of
        [] \<Rightarrow> a
      | t # ts \<Rightarrow>
          (let a1 = a\<lparr>timeouts := ts\<rparr> in
           if \<not> stopped a1 then connectWebSocket a1 else a1))"
| "step ReportTick a = a"
| "step ReportSent a = a\<lparr>seq_no := seq_no a + 1\<rparr>"
| "step InfoTick a = a"

definition run :: "event list \<Rightarrow> agent \<Rightarrow> agent" where
  "run evs a = foldl (\<lambda>s ev. step ev s) a evs"

text \<open>The push timer runs when the event loop holds an interval timer of that kind.\<close>

definition pushTimerRunning :: "agent \<Rightarrow> bool" where
  "pushTimerRunning a = list_ex (\<lambda>t. kind t = ReportPush) (intervals a)"

text \<open>
  Every running push timer is the one \<open>this._reportTimer\<close> holds: the invariant behind
  cancelling the push timer through that handle.
\<close>

definition timersOwned :: "agent \<Rightarrow> bool" where
  "timersOwned a =
     list_all (\<lambda>t. kind t \<noteq> ReportPush \<or> reportTimer a = Some (handle t)) (intervals a)"

section \<open>Derived notions\<close>

text \<open>The reading of a sample, and the rates of a sample against the previous one.\<close>

definition reading :: "env \<Rightarrow> container_metrics \<Rightarrow> cgroup_reading" where
  "reading e m = fst (getCgroupCpuMemSwap e m)"

definition sampleRates :: "env \<Rightarrow> container_metrics \<Rightarrow> rates \<times> rate_state option" where
  "sampleRates e m =
     computeRates (os_cpus e) (dateNow e) (reading e m) (getNetDev e m) (prev m)"

text \<open>
  The fields of a \<open>/proc/[pid]/stat\<close> record after the command name, as
  \<open>_pid1UptimeSeconds\<close> splits them: index \<open>k\<close> holds field \<open>k + 3\<close> of the record.
\<close>

definition statFields :: "string \<Rightarrow> string list" where
  "statFields stat1 =
     (case lastIndexOf (CHR '')'') stat1 of
        None \<Rightarrow> []
      | Some rparen \<Rightarrow> splitWs (trim (drop (rparen + 2) stat1)))"

text \<open>
  The last lines of \<open>_pid1UptimeSeconds\<close>: the uptime it returns for given start ticks
  and boot-time digits.
\<close>

definition uptimeFromTicks :: "env \<Rightarrow> rat \<Rightarrow> string \<Rightarrow> rat" where
  "uptimeFromTicks e startTicks digits =
     max 0 (rat_of_int (dateNowPid1 e) / 1000
             - (rat_of_int (digitsValue digits) + startTicks / clockTicks e))"

text \<open>The paths of a descriptor that are not \<open>null\<close>.\<close>

definition descriptorPaths :: "cgroup_descriptor \<Rightarrow> string list" where
  "descriptorPaths d =
     List.map_filter (\<lambda>f. f (paths d))
       [cpuStat, cpuMax, memCur, memMax, swapCur, swapMax,
        cpuacctUsage, cpuQuota, cpuPeriod, memUsage, memLimit, memswUsage, memswLimit]"

text \<open>The resource-control interface is absent: no file of the descriptor can be read.\<close>

definition cgroupAbsent :: "env \<Rightarrow> container_metrics \<Rightarrow> bool" where
  "cgroupAbsent e m = list_all (\<lambda>f. readFile e f = None) (descriptorPaths (resolved e m))"

text \<open>
  The memory limit is unbounded or unreadable: under the unified interface
  \<open>memory.max\<close> cannot be read, is empty or is \<open>max\<close>; under the legacy interface the
  limit file cannot be read.
\<close>

definition memLimitUnbounded :: "env \<Rightarrow> container_metrics \<Rightarrow> bool" where
  "memLimitUnbounded e m =
     (let d = resolved e m in
      if mode d = ''v2''
      then (let t = readFileSafe e (memMax (paths d)) in \<not> truthy t \<or> trim (the t) = ''max'')
      else readFileSafe e (memLimit (paths d)) = None)"

section \<open>Sample hosts\<close>

text \<open>
  Concrete hosts on which the properties below are evaluated. \<open>decimalNumber\<close> agrees
  with \<open>Number\<close> on strings of decimal digits and \<open>joinSimple\<close> with \<open>path.join\<close> on an
  absolute directory and either a file name or an absolute path without \<open>.\<close> and
  \<open>..\<close>; the sample hosts apply them to nothing else.
\<close>

definition decimalNumber :: "string \<Rightarrow> jsnum" where
  "decimalNumber s = (if allDigits s then Num (of_int (digitsValue s)) else NaN)"

definition joinSimple :: "string \<Rightarrow> string \<Rightarrow> string" where
  "joinSimple a b = (case b of [] \<Rightarrow> a | c # cs \<Rightarrow> if c = CHR ''/'' then a @ b else a @ ''/'' @ b)"

definition lines :: "string list \<Rightarrow> string" where
  "lines ls = concat (map (\<lambda>l. l @ [CHR 0x0A]) ls)"

definition netDevText :: "string \<Rightarrow> string \<Rightarrow> string" where
  "netDevText rx tx =
     lines [''Inter-|   Receive                   |  Transmit'',
            '' face |bytes packets errs drop fifo frame compressed multicast|bytes packets'',
            ''    lo: 7777 9 0 0 0 0 0 0 7777 9 0 0 0 0 0 0'',
            ''  eth0: '' @ rx @ '' 12 0 0 0 0 0 0 '' @ tx @ '' 8 0 0 0 0 0 0'']"

text \<open>
  The record of a PID 1 that started 250 ticks after boot and has 4096000 bytes of virtual
  memory: in the kernel's layout the start time is field 22 and the virtual memory size
  field 23.
\<close>

definition pid1Stat :: string where
  "pid1Stat =
     ''1 (init) S 0 1 1 0 -1 4194560 100 0 0 0 5 3 0 0 20 0 1 0 250 4096000 50 18446744073709551615''"

definition procFiles :: "(string \<times> string) list" where
  "procFiles =
     [(''/proc/1/stat'', pid1Stat),
      (''/proc/stat'', lines [''cpu  10 0 20 300 0 0 0 0 0 0'', ''btime 1700000000'']),
      (''/proc/1/cgroup'', lines [''0::/docker/abc'']),
      (''/proc/7/status'', lines [''Name:   node'', ''Threads:        11'']),
      (''/proc/net/tcp'', lines [''  sl  local_address rem_address'', ''   0: 0100007F:1F90 00000000:0000 0A''])]"

text \<open>A container under the unified interface with two cores and no memory limit.\<close>

definition hostA :: env where
  "hostA =
     \<lparr>readFile = map_of
        ([(''/sys/fs/cgroup/cpu.stat'', lines [''usage_usec 5000000'', ''user_usec 3000000'']),
          (''/sys/fs/cgroup/cpu.max'', lines [''200000 100000'']),
          (''/sys/fs/cgroup/memory.current'', lines [''104857600'']),
          (''/sys/fs/cgroup/memory.max'', lines [''max'']),
          (''/sys/fs/cgroup/memory.swap.current'', lines [''0'']),
          (''/sys/fs/cgroup/memory.swap.max'', lines [''max'']),
          (''/proc/net/dev'', netDevText ''1000'' ''500'')] @ procFiles),
      access = (\<lambda>f. f = ''/sys/fs/cgroup/cgroup.controllers''),
      readdirProc = Some [''7'', ''self'', ''net''],
      execDf = (\<lambda>f. Some (lines [''Filesystem 1024-blocks Used Available Capacity Mounted on'',
                                 ''overlay 1000000 250000 750000 25% /''])),
      execGetconf = Some (lines [''100'']),
      os_totalmem = 8589934592,
      os_cpus = 4,
      os_loadavg = (1, 1 / 2, 1 / 4),
      os_arch = ''x64'',
      os_hostname = ''box'',
      os_platform = ''linux'',
      os_release = ''6.1.0'',
      os_networkInterfaces = [],
      dateNow = 1700100000000,
      dateNowPid1 = 1700100000000,
      processUptime = 12,
      pathJoin = joinSimple,
      toNumber = decimalNumber\<rparr>"

text \<open>The same container one second later: 2000 more bytes received, half a CPU second used.\<close>

definition hostB :: env where
  "hostB =
     hostA\<lparr>readFile :=
             (readFile hostA)
               (''/proc/net/dev'' \<mapsto> netDevText ''3000'' ''900'',
                ''/sys/fs/cgroup/cpu.stat'' \<mapsto> lines [''usage_usec 5500000'']),
           dateNow := 1700100001000,
           dateNowPid1 := 1700100001000\<rparr>"

text \<open>The same container at the time of the first sample, its CPU counter back at one second.\<close>

definition hostStalled :: env where
  "hostStalled =
     hostA\<lparr>readFile :=
             (readFile hostA)(''/sys/fs/cgroup/cpu.stat'' \<mapsto> lines [''usage_usec 1000000''])\<rparr>"

text \<open>One second after the first sample, the CPU counter back at one second.\<close>

definition hostReset :: env where
  "hostReset = hostStalled\<lparr>dateNow := 1700100001000\<rparr>"



text \<open>
  A container under the legacy interface without limits: both limit files hold the
  kernel's value for no limit.
\<close>

definition hostLegacy :: env where
  "hostLegacy =
     hostA\<lparr>readFile := map_of
             ([(''/proc/self/cgroup'',
                lines [''3:cpu,cpuacct:/docker/abc'', ''2:memory:/docker/abc'']),
               (''/sys/fs/cgroup/cpuacct/docker/abc/cpuacct.usage'', lines [''5000000000'']),
               (''/sys/fs/cgroup/cpu/docker/abc/cpu.cfs_quota_us'', lines [''-1'']),
               (''/sys/fs/cgroup/cpu/docker/abc/cpu.cfs_period_us'', lines [''100000'']),
               (''/sys/fs/cgroup/memory/docker/abc/memory.usage_in_bytes'', lines [''104857600'']),
               (''/sys/fs/cgroup/memory/docker/abc/memory.limit_in_bytes'',
                lines [''9223372036854771712'']),
               (''/sys/fs/cgroup/memory/docker/abc/memory.memsw.usage_in_bytes'',
                lines [''104857600'']),
               (''/sys/fs/cgroup/memory/docker/abc/memory.memsw.limit_in_bytes'',
                lines [''9223372036854771712'']),
               (''/proc/net/dev'', netDevText ''1000'' ''500'')] @ procFiles),
           access := (\<lambda>f. False)\<rparr>"

text \<open>A host without the resource-control interface: no file under it can be read.\<close>

definition hostBare :: env where
  "hostBare =
     hostA\<lparr>readFile := map_of
             ([(''/proc/self/cgroup'',
                lines [''3:cpu,cpuacct:/docker/abc'', ''2:memory:/docker/abc'']),
               (''/proc/net/dev'', netDevText ''1000'' ''500'')] @ procFiles),
           access := (\<lambda>f. False)\<rparr>"

text \<open>The same host when the process has no membership record either.\<close>

definition hostPlain :: env where
  "hostPlain = hostBare\<lparr>readFile := map_of procFiles\<rparr>"

definition noOptions :: metrics_options where
  "noOptions =
     \<lparr>opt_sampleIntervalMs = None, opt_diskPath = None, opt_includeLoopback = None,
      opt_uptimeSource = None, opt_ramTotalFallback = None\<rparr>"

text \<open>A sampler as the agent creates it, before its first sample.\<close>

definition sampler0 :: container_metrics where
  "sampler0 = newContainerMetrics noOptions"

text \<open>The same sampler with the memory fallback switched off.\<close>

definition samplerZero :: container_metrics where
  "samplerZero = newContainerMetrics (noOptions\<lparr>opt_ramTotalFallback := Some ''zero''\<rparr>)"

definition agentOptions :: agent_options where
  "agentOptions =
     \<lparr>endpoint = Some ''https://komari.example'', token = Some ''secret'',
      opt_reportIntervalMs = None, opt_infoIntervalMs = None,
      opt_reconnectIntervalMs = Some 3000\<rparr>"

text \<open>The agent these options construct.\<close>

definition agent0 :: agent where
  "agent0 =
     \<lparr>reportIntervalMs = 1000, infoIntervalMs = 300000, reconnectIntervalMs = 3000,
      ws = None, reportTimer = None, infoTimer = None, stopped = True, seq_no = 0,
      nextHandle = 0, intervals = [], timeouts = [], sockets = 0\<rparr>"

section \<open>Rates between two samples\<close>

lemma computeRates_prev:
  "snd (computeRates h t cg nd pv) =
     Some \<lparr>prev_at = t, cpuUsageSeconds = usageSeconds (cg_cpu cg),
           totalRx = sumRx nd, totalTx = sumTx nd\<rparr>"
  by (simp add: computeRates_def Let_def split: option.split prod.split)

lemma computeRates_first:
  "fst (computeRates h t cg nd None) =
     \<lparr>rxBps = Some (Num 0), txBps = Some (Num 0),
      totalRxBytes = sumRx nd, totalTxBytes = sumTx nd,
      cpuPercentOfHost = None, cpuPercentOfLimit = None\<rparr>"
  by (simp add: computeRates_def Let_def)

lemma computeRates_stalled:
  "t \<le> prev_at p \<Longrightarrow>
   fst (computeRates h t cg nd (Some p)) =
     \<lparr>rxBps = Some (Num 0), txBps = Some (Num 0),
      totalRxBytes = sumRx nd, totalTxBytes = sumTx nd,
      cpuPercentOfHost = None, cpuPercentOfLimit = None\<rparr>"
  by (simp add: computeRates_def Let_def)

lemma computeRates_elapsed:
  "prev_at p < t \<Longrightarrow>
   fst (computeRates h t cg nd (Some p)) =
     \<lparr>rxBps = Some (Num (max 0 (of_int (sumRx nd - totalRx p) / (of_int (t - prev_at p) / 1000)))),
      txBps = Some (Num (max 0 (of_int (sumTx nd - totalTx p) / (of_int (t - prev_at p) / 1000)))),
      totalRxBytes = sumRx nd, totalTxBytes = sumTx nd,
      cpuPercentOfHost =
        Some (Num ((usageSeconds (cg_cpu cg) - cpuUsageSeconds p)
                   / (of_int (t - prev_at p) / 1000 * of_nat (if h = 0 then 1 else h)) * 100)),
      cpuPercentOfLimit =
        Some (js_times (js_div (usageSeconds (cg_cpu cg) - cpuUsageSeconds p)
                (of_int (t - prev_at p) / 1000
                   * nullish (limitCores (cg_cpu cg)) (of_nat (if h = 0 then 1 else h)))) 100)\<rparr>"
  by (simp add: computeRates_def Let_def js_div_def js_times_def)

section \<open>The sampler keeps its configuration\<close>

lemma ensureCgroup_fields [simp]:
  "ramTotalFallback (ensureCgroup e m) = ramTotalFallback m"
  "includeLoopback (ensureCgroup e m) = includeLoopback m"
  "uptimeSource (ensureCgroup e m) = uptimeSource m"
  "diskPath (ensureCgroup e m) = diskPath m"
  "prev (ensureCgroup e m) = prev m"
  "cgroup (ensureCgroup e m) = Some (resolved e m)"
  by (simp_all add: ensureCgroup_def resolved_def split: option.split)

lemma resolved_ensure [simp]: "resolved e (ensureCgroup e m) = resolved e m"
  by (simp add: resolved_def)

lemma resolved_cached: "cgroup m = Some d \<Longrightarrow> resolved e m = d"
  by (simp add: resolved_def)

lemma ramFallback_cong:
  "ramTotalFallback m' = ramTotalFallback m \<Longrightarrow> ramFallback e m' = ramFallback e m"
  by (simp add: ramFallback_def)

lemma readCgroup_cong:
  assumes "ramTotalFallback m' = ramTotalFallback m"
  shows "readCgroupV2 e m' ps = readCgroupV2 e m ps"
    and "readCgroupV1 e m' ps = readCgroupV1 e m ps"
proof -
  have F: "ramFallback e m' = ramFallback e m"
    using assms by (rule ramFallback_cong)
  show "readCgroupV2 e m' ps = readCgroupV2 e m ps"
    unfolding readCgroupV2_def F by (rule refl)
  show "readCgroupV1 e m' ps = readCgroupV1 e m ps"
    unfolding readCgroupV1_def F by (rule refl)
qed

lemma reading_cong:
  "ramTotalFallback m' = ramTotalFallback m \<Longrightarrow> resolved e m' = resolved e m
   \<Longrightarrow> reading e m' = reading e m"
  by (simp add: reading_def getCgroupCpuMemSwap_def Let_def readCgroup_cong [of m' m])

lemma reading_ensure [simp]: "reading e (ensureCgroup e m) = reading e m"
  by (rule reading_cong) simp_all

lemma getNetDev_cong:
  assumes "includeLoopback m' = includeLoopback m"
  shows "getNetDev e m' = getNetDev e m"
proof -
  have "addNetLine m' = addNetLine m"
    unfolding addNetLine_def [abs_def] assms by (rule refl)
  then show ?thesis
    unfolding getNetDev_def by simp
qed

lemma getNetDev_ensure [simp]: "getNetDev e (ensureCgroup e m) = getNetDev e m"
  by (rule getNetDev_cong) simp

section \<open>What a snapshot reports\<close>

lemma snapshot_network:
  "network (metrics (fst (snapshot e m))) =
     \<lparr>upBps = txBps (fst (sampleRates e m)),
      downBps = rxBps (fst (sampleRates e m)),
      totalUpBytes = totalTxBytes (fst (sampleRates e m)),
      totalDownBytes = totalRxBytes (fst (sampleRates e m)),
      byInterface = getNetDev e m,
      net_ips = pickIps e (ensureCgroup e m)\<rparr>"
  by (simp add: snapshot_def Let_def sampleRates_def reading_def [symmetric] getSystemBasic_def)

lemma snapshot_cpu:
  "cpu (metrics (fst (snapshot e m))) =
     \<lparr>usagePercentOfLimit = cpuPercentOfLimit (fst (sampleRates e m)),
      usagePercentOfHost = cpuPercentOfHost (fst (sampleRates e m)),
      cpu_limitCores = limitCores (cg_cpu (reading e m))\<rparr>"
  by (simp add: snapshot_def Let_def sampleRates_def reading_def [symmetric])

lemma snapshot_state:
  "snd (snapshot e m) = (ensureCgroup e m)\<lparr>prev := snd (sampleRates e m)\<rparr>"
  by (simp add: snapshot_def Let_def sampleRates_def reading_def [symmetric])


lemma sampleRates_prev:
  "snd (sampleRates e m) =
     Some \<lparr>prev_at = dateNow e, cpuUsageSeconds = usageSeconds (cg_cpu (reading e m)),
           totalRx = sumRx (getNetDev e m), totalTx = sumTx (getNetDev e m)\<rparr>"
  by (simp add: sampleRates_def computeRates_prev)

lemma computeRates_totals:
  "totalRxBytes (fst (computeRates h t cg nd pv)) = sumRx nd"
  "totalTxBytes (fst (computeRates h t cg nd pv)) = sumTx nd"
  by (simp_all add: computeRates_def Let_def split: option.split prod.split)


text \<open>The second of two consecutive samples: its rates are taken against the first.\<close>

lemma second_sample:
  "sampleRates e2 (snd (snapshot e1 m)) =
     computeRates (os_cpus e2) (dateNow e2) (reading e2 (ensureCgroup e1 m)) (getNetDev e2 m)
       (Some \<lparr>prev_at = dateNow e1, cpuUsageSeconds = usageSeconds (cg_cpu (reading e1 m)),
              totalRx = sumRx (getNetDev e1 m), totalTx = sumTx (getNetDev e1 m)\<rparr>)"
proof -
  let ?m1 = "snd (snapshot e1 m)"
  have s: "?m1 = (ensureCgroup e1 m)\<lparr>prev := snd (sampleRates e1 m)\<rparr>"
    by (rule snapshot_state)
  have r: "reading e2 ?m1 = reading e2 (ensureCgroup e1 m)"
    unfolding s by (rule reading_cong) (simp_all add: resolved_def)
  have n: "getNetDev e2 ?m1 = getNetDev e2 m"
    unfolding s by (rule getNetDev_cong) simp
  have p: "prev ?m1 = snd (sampleRates e1 m)"
    unfolding s by simp
  show ?thesis
    unfolding sampleRates_def [of e2 ?m1] r n p sampleRates_prev by (rule refl)
qed


lemma second_totals:
  "totalDownBytes (network (metrics (fst (snapshot e2 (snd (snapshot e1 m)))))) = sumRx (getNetDev e2 m)"
  "totalUpBytes (network (metrics (fst (snapshot e2 (snd (snapshot e1 m)))))) = sumTx (getNetDev e2 m)"
  by (simp_all add: snapshot_network second_sample computeRates_totals)

section \<open>Evaluation on the sample hosts\<close>

lemma sampler0_fields:
  "includeLoopback sampler0 = False"
  "ramTotalFallback sampler0 = ''host''"
  "uptimeSource sampler0 = ''auto''"
  "prev sampler0 = None"
  "cgroup sampler0 = None"
  by code_simp+

lemma hostA_netdev: "getNetDev hostA sampler0 = [(''eth0'', \<lparr>rxBytes = 1000, txBytes = 500\<rparr>)]"
  by code_simp


lemma host_clocks:
  "dateNow hostA = 1700100000000"
  "dateNow hostB = 1700100001000"
  "dateNow hostStalled = 1700100000000"
  "dateNow hostReset = 1700100001000"
  by (simp_all add: hostA_def hostB_def hostStalled_def hostReset_def)

lemma hostA_reading:
  "reading hostA sampler0 =
     \<lparr>cg_cpu = \<lparr>usageSeconds = 5, limitCores = Some 2\<rparr>,
      cg_mem = \<lparr>usageBytes = Some 104857600, limitBytes = Some 8589934592\<rparr>,
      cg_swap = \<lparr>usageBytes = Some 0, limitBytes = Some 0\<rparr>\<rparr>"
  by code_simp

section \<open>Network rate between two consecutive snapshots\<close>



section \<open>The first snapshot\<close>

text \<open>
  Claim C3, as the code has it. The first snapshot of a new sampler has no previous
  sample: both CPU percentages are \<open>null\<close>, and the two network rates are the number 0,
  not \<open>null\<close>. The call returns a snapshot for every host.
\<close>

theorem first_snapshot_rates:
  "(let s = fst (snapshot e (newContainerMetrics options)) in
      usagePercentOfLimit (cpu (metrics s)) = None
      \<and> usagePercentOfHost (cpu (metrics s)) = None
      \<and> upBps (network (metrics s)) = Some (Num 0)
      \<and> downBps (network (metrics s)) = Some (Num 0))"
proof -
  have p: "prev (newContainerMetrics options) = None"
    by (simp add: newContainerMetrics_def)
  show ?thesis
    by (simp add: Let_def snapshot_cpu snapshot_network sampleRates_def p computeRates_first)
qed

text \<open>
  Claim C3 as stated fails: on the first snapshot of the sample host the download rate
  is a number, where the claim has \<open>null\<close>.
\<close>

theorem first_snapshot_rate_not_null:
  "downBps (network (metrics (fst (snapshot hostA sampler0)))) \<noteq> None"
  by (simp add: snapshot_network sampleRates_def sampler0_fields computeRates_first)

section \<open>Sign of the rates\<close>

lemma computeRates_network_nonneg:
  "(\<exists>r. rxBps (fst (computeRates h t cg nd pv)) = Some (Num r) \<and> 0 \<le> r)
   \<and> (\<exists>r. txBps (fst (computeRates h t cg nd pv)) = Some (Num r) \<and> 0 \<le> r)"
proof (cases pv)
  case None
  then show ?thesis by (simp add: computeRates_first)
next
  case (Some p)
  show ?thesis
  proof (cases "t \<le> prev_at p")
    case True
    with Some show ?thesis by (simp add: computeRates_stalled)
  next
    case False
    then have "prev_at p < t" by simp
    with Some show ?thesis by (simp add: computeRates_elapsed)
  qed
qed

lemma js_percent_nonneg:
  assumes "0 \<le> n" and "0 < d"
  shows "\<exists>r. js_times (js_div n d) 100 = Num r \<and> 0 \<le> r"
proof -
  have "js_times (js_div n d) 100 = Num (n / d * 100)"
    using assms(2) by (simp add: js_div_def js_times_def)
  moreover have "0 \<le> n / d * 100"
    using assms by simp
  ultimately show ?thesis by blast
qed

lemma computeRates_cpu:
  assumes "prev_at p < t"
  shows "cpuPercentOfHost (fst (computeRates h t cg nd (Some p))) =
           Some (js_times (js_div (usageSeconds (cg_cpu cg) - cpuUsageSeconds p)
                   (rat_of_int (t - prev_at p) / 1000 * rat_of_nat (if h = 0 then 1 else h))) 100)"
    and "cpuPercentOfLimit (fst (computeRates h t cg nd (Some p))) =
           Some (js_times (js_div (usageSeconds (cg_cpu cg) - cpuUsageSeconds p)
                   (rat_of_int (t - prev_at p) / 1000
                      * nullish (limitCores (cg_cpu cg)) (rat_of_nat (if h = 0 then 1 else h)))) 100)"
  using assms by (simp_all add: computeRates_def Let_def)

lemma computeRates_cpu_nonneg:
  assumes "prev_at p < t" and "cpuUsageSeconds p \<le> usageSeconds (cg_cpu cg)"
  shows "\<exists>r. cpuPercentOfHost (fst (computeRates h t cg nd (Some p))) = Some (Num r) \<and> 0 \<le> r"
    and "(\<forall>l. limitCores (cg_cpu cg) = Some l \<longrightarrow> 0 < l) \<Longrightarrow>
         \<exists>r. cpuPercentOfLimit (fst (computeRates h t cg nd (Some p))) = Some (Num r) \<and> 0 \<le> r"
proof -
  have dt: "0 < rat_of_int (t - prev_at p) / 1000"
    using assms(1) by simp
  have dc: "0 \<le> usageSeconds (cg_cpu cg) - cpuUsageSeconds p"
    using assms(2) by simp
  have hc: "0 < rat_of_nat (if h = 0 then 1 else h)"
    by simp
  have "0 < rat_of_int (t - prev_at p) / 1000 * rat_of_nat (if h = 0 then 1 else h)"
    using dt hc by (rule mult_pos_pos)
  from js_percent_nonneg [OF dc this]
  show "\<exists>r. cpuPercentOfHost (fst (computeRates h t cg nd (Some p))) = Some (Num r) \<and> 0 \<le> r"
    unfolding computeRates_cpu [OF assms(1)] by simp
  assume lim: "\<forall>l. limitCores (cg_cpu cg) = Some l \<longrightarrow> 0 < l"
  have lc: "0 < nullish (limitCores (cg_cpu cg)) (rat_of_nat (if h = 0 then 1 else h))"
  proof (cases "limitCores (cg_cpu cg)")
    case None
    then show ?thesis using hc by (simp only: nullish_def option.case)
  next
    case (Some l)
    then show ?thesis using lim by (simp add: nullish_def)
  qed
  have "0 < rat_of_int (t - prev_at p) / 1000
               * nullish (limitCores (cg_cpu cg)) (rat_of_nat (if h = 0 then 1 else h))"
    using dt lc by (rule mult_pos_pos)
  from js_percent_nonneg [OF dc this]
  show "\<exists>r. cpuPercentOfLimit (fst (computeRates h t cg nd (Some p))) = Some (Num r) \<and> 0 \<le> r"
    unfolding computeRates_cpu [OF assms(1)] by simp
qed

lemma hostA_second_readings:
  "reading hostB (ensureCgroup hostA sampler0) =
     \<lparr>cg_cpu = \<lparr>usageSeconds = 11 / 2, limitCores = Some 2\<rparr>,
      cg_mem = \<lparr>usageBytes = Some 104857600, limitBytes = Some 8589934592\<rparr>,
      cg_swap = \<lparr>usageBytes = Some 0, limitBytes = Some 0\<rparr>\<rparr>"
  "usageSeconds (cg_cpu (reading hostReset (ensureCgroup hostA sampler0))) = 1"
  "usageSeconds (cg_cpu (reading hostStalled (ensureCgroup hostA sampler0))) = 1"
  "limitCores (cg_cpu (reading hostReset (ensureCgroup hostA sampler0))) = Some 2"
  by code_simp+

lemma host_cpus:
  "os_cpus hostA = 4" "os_cpus hostB = 4" "os_cpus hostStalled = 4" "os_cpus hostReset = 4"
  by (simp_all add: hostA_def hostB_def hostStalled_def hostReset_def)

text \<open>
  Claim C2 as stated fails. One second after the first sample, with the CPU counter
  back from five seconds to one, the snapshot reports a CPU percentage of host of -100;
  and at the very time of the first sample it reports \<open>null\<close>, not 0.
\<close>

theorem cpu_rate_negative_or_null:
  "usagePercentOfHost (cpu (metrics (fst (snapshot hostReset (snd (snapshot hostA sampler0))))))
     = Some (Num (- 100))
   \<and> usagePercentOfHost (cpu (metrics (fst (snapshot hostStalled (snd (snapshot hostA sampler0))))))
     = None"
proof -
  have a: "usagePercentOfHost (cpu (metrics (fst (snapshot hostReset (snd (snapshot hostA sampler0))))))
             = Some (Num (- 100))"
    by (simp add: snapshot_cpu second_sample computeRates_cpu host_clocks host_cpus
          hostA_reading hostA_second_readings js_div_def js_times_def)
  have b: "usagePercentOfHost (cpu (metrics (fst (snapshot hostStalled (snd (snapshot hostA sampler0))))))
             = None"
    by (simp add: snapshot_cpu second_sample computeRates_stalled host_clocks)
  from a b show ?thesis by simp
qed

lemma reading_second: "reading e2 (snd (snapshot e1 m)) = reading e2 (ensureCgroup e1 m)"
  unfolding snapshot_state by (rule reading_cong) (simp_all add: resolved_def)

lemma prev_second:
  "prev (snd (snapshot e1 m)) =
     Some \<lparr>prev_at = dateNow e1, cpuUsageSeconds = usageSeconds (cg_cpu (reading e1 m)),
           totalRx = sumRx (getNetDev e1 m), totalTx = sumTx (getNetDev e1 m)\<rparr>"
  by (simp add: snapshot_state sampleRates_prev)

text \<open>
  Claim C2, as the code has it. In every snapshot the two network rates are finite and
  not negative. When the clock has not advanced since the previous sample, the network
  rates are exactly 0 and both CPU percentages are \<open>null\<close>; nothing is divided. When it
  has advanced and the cumulative CPU seconds have not gone down, the CPU percentage of
  host is finite and not negative, and so is the percentage of limit when the reported
  CPU limit is absent or positive.
\<close>

theorem rates_sign:
  "(let s = fst (snapshot e m) in
      (\<exists>r. downBps (network (metrics s)) = Some (Num r) \<and> 0 \<le> r)
      \<and> (\<exists>r. upBps (network (metrics s)) = Some (Num r) \<and> 0 \<le> r)
      \<and> (\<forall>p. prev m = Some p \<and> dateNow e \<le> prev_at p \<longrightarrow>
             downBps (network (metrics s)) = Some (Num 0)
             \<and> upBps (network (metrics s)) = Some (Num 0)
             \<and> usagePercentOfHost (cpu (metrics s)) = None
             \<and> usagePercentOfLimit (cpu (metrics s)) = None)
      \<and> (\<forall>p. prev m = Some p \<and> prev_at p < dateNow e
               \<and> cpuUsageSeconds p \<le> usageSeconds (cg_cpu (reading e m)) \<longrightarrow>
             (\<exists>r. usagePercentOfHost (cpu (metrics s)) = Some (Num r) \<and> 0 \<le> r)
             \<and> ((\<forall>l. cpu_limitCores (cpu (metrics s)) = Some l \<longrightarrow> 0 < l) \<longrightarrow>
                  (\<exists>r. usagePercentOfLimit (cpu (metrics s)) = Some (Num r) \<and> 0 \<le> r))))"
proof -
  let ?s = "fst (snapshot e m)"
  have net: "(\<exists>r. downBps (network (metrics ?s)) = Some (Num r) \<and> 0 \<le> r)
             \<and> (\<exists>r. upBps (network (metrics ?s)) = Some (Num r) \<and> 0 \<le> r)"
    using computeRates_network_nonneg [of "os_cpus e" "dateNow e" "reading e m" "getNetDev e m" "prev m"]
    by (simp add: snapshot_network sampleRates_def)
  have stalled:
    "downBps (network (metrics ?s)) = Some (Num 0)
     \<and> upBps (network (metrics ?s)) = Some (Num 0)
     \<and> usagePercentOfHost (cpu (metrics ?s)) = None
     \<and> usagePercentOfLimit (cpu (metrics ?s)) = None"
    if "prev m = Some p" "dateNow e \<le> prev_at p" for p
    using that by (simp add: snapshot_network snapshot_cpu sampleRates_def computeRates_stalled)
  have elapsed:
    "(\<exists>r. usagePercentOfHost (cpu (metrics ?s)) = Some (Num r) \<and> 0 \<le> r)
     \<and> ((\<forall>l. cpu_limitCores (cpu (metrics ?s)) = Some l \<longrightarrow> 0 < l) \<longrightarrow>
          (\<exists>r. usagePercentOfLimit (cpu (metrics ?s)) = Some (Num r) \<and> 0 \<le> r))"
    if "prev m = Some p" "prev_at p < dateNow e"
       "cpuUsageSeconds p \<le> usageSeconds (cg_cpu (reading e m))" for p
    using computeRates_cpu_nonneg [OF that(2) that(3), of "os_cpus e" "getNetDev e m"] that(1)
    by (simp add: snapshot_cpu sampleRates_def)
  show ?thesis
    unfolding Let_def using net stalled elapsed by blast
qed

theorem rates_sign_witness:
  "downBps (network (metrics (fst (snapshot hostStalled (snd (snapshot hostA sampler0)))))) = Some (Num 0)
   \<and> usagePercentOfLimit (cpu (metrics (fst (snapshot hostStalled (snd (snapshot hostA sampler0)))))) = None
   \<and> (\<exists>r. usagePercentOfHost (cpu (metrics (fst (snapshot hostB (snd (snapshot hostA sampler0))))))
            = Some (Num r) \<and> 0 \<le> r)
   \<and> (\<exists>r. usagePercentOfLimit (cpu (metrics (fst (snapshot hostB (snd (snapshot hostA sampler0))))))
            = Some (Num r) \<and> 0 \<le> r)"
proof -
  let ?m1 = "snd (snapshot hostA sampler0)"
  let ?p = "\<lparr>prev_at = 1700100000000, cpuUsageSeconds = 5, totalRx = 1000, totalTx = 500\<rparr>"
  have p: "prev ?m1 = Some ?p"
    by (simp add: prev_second host_clocks hostA_reading hostA_netdev sumRx_def sumTx_def)
  have st: "dateNow hostStalled \<le> prev_at ?p"
    by (simp add: host_clocks)
  have el: "prev_at ?p < dateNow hostB"
    by (simp add: host_clocks)
  have cpu: "cpuUsageSeconds ?p \<le> usageSeconds (cg_cpu (reading hostB ?m1))"
    by (simp add: reading_second hostA_second_readings)
  have lim: "\<forall>l. cpu_limitCores (cpu (metrics (fst (snapshot hostB ?m1)))) = Some l \<longrightarrow> 0 < l"
    by (simp add: snapshot_cpu reading_second hostA_second_readings)
  from rates_sign [of hostStalled ?m1] p st
  have a: "downBps (network (metrics (fst (snapshot hostStalled ?m1)))) = Some (Num 0)
           \<and> usagePercentOfLimit (cpu (metrics (fst (snapshot hostStalled ?m1)))) = None"
    unfolding Let_def by blast
  from rates_sign [of hostB ?m1] p el cpu lim
  have b: "(\<exists>r. usagePercentOfHost (cpu (metrics (fst (snapshot hostB ?m1)))) = Some (Num r) \<and> 0 \<le> r)
           \<and> (\<exists>r. usagePercentOfLimit (cpu (metrics (fst (snapshot hostB ?m1)))) = Some (Num r) \<and> 0 \<le> r)"
    unfolding Let_def by blast
  from a b show ?thesis by simp
qed

section \<open>The CPU usage of a streaming frame\<close>












section \<open>Detection of the resource-control interface\<close>

lemma joinIf_falsy: "\<not> truthy x \<Longrightarrow> joinIf e base x = None"
  by (simp add: joinIf_def)

lemma joinUnder_None: "joinUnder e None f = None"
  by (simp add: joinUnder_def truthy_def)

lemma controllerMap_unreadable:
  "\<not> truthy (readFile e ''/proc/self/cgroup'') \<Longrightarrow> controllerMap e = Map.empty"
  by (simp add: controllerMap_def readFileSafe_def Let_def trim_def splitLines_def splitChar_def
        addCgroupLine_def)

text \<open>
  Claim C10. The descriptor has mode \<open>v2\<close> when the marker file of the unified
  interface exists and mode \<open>v1\<close> otherwise, so never \<open>unavailable\<close>; under mode \<open>v1\<close>
  every path is \<open>null\<close> when the membership record lists none of the controllers
  \<open>cpuacct\<close>, \<open>cpu\<close> and \<open>memory\<close>, as when it cannot be read. Detection is a total
  function of the host: a failing file access is the value false, a failing read is
  \<open>null\<close>.
\<close>

theorem detect_mode:
  "mode (detectCgroup e) =
     (if access e ''/sys/fs/cgroup/cgroup.controllers'' then ''v2'' else ''v1'')
   \<and> mode (detectCgroup e) \<noteq> ''unavailable''
   \<and> (\<not> access e ''/sys/fs/cgroup/cgroup.controllers''
        \<and> \<not> truthy (controllerMap e ''cpuacct'')
        \<and> \<not> truthy (controllerMap e ''cpu'')
        \<and> \<not> truthy (controllerMap e ''memory'')
        \<longrightarrow> paths (detectCgroup e) = noPaths)
   \<and> (\<not> truthy (readFile e ''/proc/self/cgroup'') \<longrightarrow> controllerMap e = Map.empty)"
proof -
  have a: "mode (detectCgroup e) =
             (if access e ''/sys/fs/cgroup/cgroup.controllers'' then ''v2'' else ''v1'')"
    by (simp add: detectCgroup_def exists_path_def Let_def)
  then have b: "mode (detectCgroup e) \<noteq> ''unavailable''"
    by simp
  have c: "paths (detectCgroup e) = noPaths"
    if "\<not> access e ''/sys/fs/cgroup/cgroup.controllers''"
       "\<not> truthy (controllerMap e ''cpuacct'')"
       "\<not> truthy (controllerMap e ''cpu'')"
       "\<not> truthy (controllerMap e ''memory'')"
    using that
    by (simp add: detectCgroup_def exists_path_def Let_def joinIf_falsy joinUnder_None noPaths_def)
  from a b c controllerMap_unreadable [of e] show ?thesis
    by blast
qed

lemma hostPlain_files:
  "access hostPlain ''/sys/fs/cgroup/cgroup.controllers'' = False"
  "readFile hostPlain ''/proc/self/cgroup'' = None"
  by code_simp+

theorem detect_mode_witness:
  "mode (detectCgroup hostA) = ''v2''
   \<and> mode (detectCgroup hostPlain) = ''v1''
   \<and> paths (detectCgroup hostPlain) = noPaths"
proof -
  have m: "controllerMap hostPlain = Map.empty"
    using detect_mode [of hostPlain] by (simp add: hostPlain_files truthy_def)
  have "access hostA ''/sys/fs/cgroup/cgroup.controllers''"
    by (simp add: hostA_def)
  with detect_mode [of hostA] detect_mode [of hostPlain] m show ?thesis
    by (simp add: hostPlain_files truthy_def)
qed

section \<open>Memory total when the limit is unbounded\<close>

lemma limitUnlessMax_unbounded:
  "\<not> truthy t \<or> trim (the t) = ''max'' \<Longrightarrow> limitUnlessMax t = None"
  by (auto simp: limitUnlessMax_def)

lemma readCgroupV2_mem_unbounded:
  assumes "\<not> truthy (readFileSafe e (memMax ps)) \<or> trim (the (readFileSafe e (memMax ps))) = ''max''"
  shows "limitBytes (cg_mem (readCgroupV2 e m ps)) = Some (ramFallback e m)"
  using limitUnlessMax_unbounded [OF assms] by (simp add: readCgroupV2_def Let_def)

lemma readCgroupV1_mem_unreadable:
  assumes "readFileSafe e (memLimit ps) = None"
  shows "limitBytes (cg_mem (readCgroupV1 e m ps)) = Some (ramFallback e m)"
  using assms by (simp add: readCgroupV1_def Let_def toInt_def)

lemma reading_mem_unbounded:
  assumes "memLimitUnbounded e m"
  shows "limitBytes (cg_mem (reading e m)) = Some (ramFallback e m)"
proof (cases "mode (resolved e m) = ''v2''")
  case True
  with assms show ?thesis
    by (simp add: reading_def getCgroupCpuMemSwap_def memLimitUnbounded_def Let_def
          readCgroupV2_mem_unbounded)
next
  case False
  with assms show ?thesis
    by (simp add: reading_def getCgroupCpuMemSwap_def memLimitUnbounded_def Let_def
          readCgroupV1_mem_unreadable)
qed

lemma snapshot_ram:
  "ram (metrics (fst (snapshot e m))) =
     \<lparr>tu_total = limitBytes (cg_mem (reading e m)), tu_used = usageBytes (cg_mem (reading e m))\<rparr>"
  by (simp add: snapshot_def Let_def reading_def [symmetric])

lemma snapshot_swap:
  "swap (metrics (fst (snapshot e m))) =
     \<lparr>tu_total = limitBytes (cg_swap (reading e m)), tu_used = usageBytes (cg_swap (reading e m))\<rparr>"
  by (simp add: snapshot_def Let_def reading_def [symmetric])

lemma basicInfo_mem_total:
  "mem_total (fst (getBasicInfoForKomari e m v)) = nullish (limitBytes (cg_mem (reading e m))) 0"
  by (simp add: getBasicInfoForKomari_def Let_def reading_def [symmetric])

text \<open>
  Claim C4. When the memory limit is unbounded or unreadable (\<open>memory.max\<close> is \<open>max\<close>,
  empty or cannot be read under the unified interface; the limit file cannot be read
  under the legacy one), \<open>ram.total\<close> of the snapshot and \<open>mem_total\<close> of the identity
  payload are the host's total memory under the policy \<open>host\<close> and 0 under \<open>zero\<close> or any
  other policy; under \<open>host\<close>, on a host with memory, they are not 0.
\<close>

theorem memory_total_fallback:
  assumes "memLimitUnbounded e m"
  shows
    "tu_total (ram (metrics (fst (snapshot e m)))) =
       Some (if ramTotalFallback m = ''host'' then os_totalmem e else 0)
     \<and> mem_total (fst (getBasicInfoForKomari e m v)) =
       (if ramTotalFallback m = ''host'' then os_totalmem e else 0)
     \<and> (ramTotalFallback m = ''host'' \<and> 0 < os_totalmem e \<longrightarrow>
          tu_total (ram (metrics (fst (snapshot e m)))) \<noteq> Some 0
          \<and> mem_total (fst (getBasicInfoForKomari e m v)) \<noteq> 0)"
  using reading_mem_unbounded [OF assms]
  by (simp add: snapshot_ram basicInfo_mem_total nullish_def ramFallback_def)

lemma hostA_unbounded:
  "memLimitUnbounded hostA sampler0"
  "memLimitUnbounded hostA samplerZero"
  by code_simp+

lemma samplerZero_fallback: "ramTotalFallback samplerZero = ''zero''"
  by code_simp

theorem memory_total_fallback_witness:
  "memLimitUnbounded hostA sampler0
   \<and> tu_total (ram (metrics (fst (snapshot hostA sampler0)))) = Some 8589934592
   \<and> mem_total (fst (getBasicInfoForKomari hostA sampler0 ''node-agent/1.0.7'')) = 8589934592
   \<and> tu_total (ram (metrics (fst (snapshot hostA samplerZero)))) = Some 0
   \<and> mem_total (fst (getBasicInfoForKomari hostA samplerZero ''node-agent/1.0.7'')) = 0"
proof -
  have t: "os_totalmem hostA = 8589934592"
    by (simp add: hostA_def)
  from memory_total_fallback [OF hostA_unbounded(1), of "''node-agent/1.0.7''"]
       memory_total_fallback [OF hostA_unbounded(2), of "''node-agent/1.0.7''"]
  show ?thesis
    by (simp add: hostA_unbounded sampler0_fields samplerZero_fallback t)
qed

section \<open>Swap under the legacy interface\<close>

text \<open>
  What the legacy branch returns for swap. The usage is the combined usage minus the
  memory usage, floored at 0, when both can be read, else 0. The limit is the combined
  limit minus the memory limit that the branch reports, floored at 0, when the combined
  limit can be read, else 0; the reported memory limit is the file's value only when that
  is neither 0 nor at least half of \<open>2^53 - 1\<close>.
\<close>

lemma readCgroupV1_swap:
  "usageBytes (cg_swap (readCgroupV1 e m ps)) =
     Some (case (toInt (readFileSafe e (memswUsage ps)), toInt (readFileSafe e (memUsage ps))) of
             (Some su, Some u) \<Rightarrow> max 0 (su - u) | _ \<Rightarrow> 0)"
  "limitBytes (cg_swap (readCgroupV1 e m ps)) =
     Some (case toInt (readFileSafe e (memswLimit ps)) of
             Some sl \<Rightarrow> max 0 (sl - the (limitBytes (cg_mem (readCgroupV1 e m ps))))
           | None \<Rightarrow> 0)"
  by (simp_all add: readCgroupV1_def Let_def split: option.split)

lemma readCgroupV1_swap_limit_bounded:
  assumes "toInt (readFileSafe e (memLimit ps)) = Some l"
      and "l \<noteq> 0" and "rat_of_int l < 9007199254740991 / 2"
      and "toInt (readFileSafe e (memswLimit ps)) = Some sl"
  shows "limitBytes (cg_swap (readCgroupV1 e m ps)) = Some (max 0 (sl - l))"
  using assms by (simp add: readCgroupV1_def Let_def)

lemma hostLegacy_files:
  "mode (resolved hostLegacy sampler0) = ''v1''"
  "toInt (readFileSafe hostLegacy (memLimit (paths (resolved hostLegacy sampler0))))
     = Some 9223372036854771712"
  "toInt (readFileSafe hostLegacy (memswLimit (paths (resolved hostLegacy sampler0))))
     = Some 9223372036854771712"
  by code_simp+

lemma hostLegacy_reading:
  "reading hostLegacy sampler0 =
     \<lparr>cg_cpu = \<lparr>usageSeconds = 5, limitCores = None\<rparr>,
      cg_mem = \<lparr>usageBytes = Some 104857600, limitBytes = Some 8589934592\<rparr>,
      cg_swap = \<lparr>usageBytes = Some 0, limitBytes = Some 9223372028264837120\<rparr>\<rparr>"
  by code_simp

text \<open>
  Claim C5 at a container of the legacy interface without limits. Both limit files hold
  9223372036854771712, so the combined limit minus the memory limit is 0. The snapshot
  reports the host's 8589934592 bytes as memory total and 9223372028264837120 bytes as
  swap total: the file's value minus the host's total memory.
\<close>

theorem legacy_swap_limit_without_limits:
  "mode (resolved hostLegacy sampler0) = ''v1''
   \<and> toInt (readFileSafe hostLegacy (memLimit (paths (resolved hostLegacy sampler0))))
       = Some 9223372036854771712
   \<and> toInt (readFileSafe hostLegacy (memswLimit (paths (resolved hostLegacy sampler0))))
       = Some 9223372036854771712
   \<and> tu_total (ram (metrics (fst (snapshot hostLegacy sampler0)))) = Some 8589934592
   \<and> tu_total (swap (metrics (fst (snapshot hostLegacy sampler0)))) = Some 9223372028264837120"
  by (simp add: hostLegacy_files snapshot_ram snapshot_swap hostLegacy_reading)

section \<open>Uptime\<close>

lemma pid1Uptime_nonneg: "pid1UptimeSeconds e = Inr v \<Longrightarrow> 0 \<le> v"
  by (auto simp: pid1UptimeSeconds_def Let_def
           split: if_splits option.splits jsnum.splits)

lemma pid1Uptime_missing:
  "\<not> truthy (readFile e ''/proc/1/stat'') \<or> \<not> truthy (readFile e ''/proc/stat'')
   \<Longrightarrow> pid1UptimeSeconds e = Inl MissingProcFiles"
  by (auto simp: pid1UptimeSeconds_def Let_def readFileSafe_def)

lemma pid1Uptime_value:
  assumes "readFile e ''/proc/1/stat'' = Some stat1" and "stat1 \<noteq> []"
      and "readFile e ''/proc/stat'' = Some statBoot" and "statBoot \<noteq> []"
      and "lastIndexOf (CHR '')'') stat1 = Some rparen"
      and "nth_opt (splitWs (trim (drop (rparen + 2) stat1))) 20 = Some field"
      and "toNumber e field = Num startTicks"
      and "matchBtime statBoot = Some digits"
  shows "pid1UptimeSeconds e =
           Inr (max 0 (rat_of_int (dateNowPid1 e) / 1000
                        - (rat_of_int (digitsValue digits) + startTicks / clockTicks e)))"
  using assms by (simp add: pid1UptimeSeconds_def Let_def readFileSafe_def truthy_def)

lemma uptime_cases:
  "getContainerUptimeSeconds e m = processUptime e
   \<or> (\<exists>v. pid1UptimeSeconds e = Inr v \<and> getContainerUptimeSeconds e m = v)"
  by (cases "pid1UptimeSeconds e")
     (simp_all add: getContainerUptimeSeconds_def Let_def nullish_def)

text \<open>
  The policies. Under every policy the uptime is a value, and it is not negative when the
  uptime of the process is not. Under \<open>process\<close> it is the uptime of the process. Under
  \<open>pid1\<close> it is the result of the PID 1 computation, and the uptime of the process when
  that computation throws, as it does when one of the two kernel records cannot be read
  or is empty. Under any other policy it is the uptime of the process when PID 1 looks
  like the host's, and as under \<open>pid1\<close> otherwise. When the computation succeeds, its
  result is the current time minus boot time plus ticks over the tick rate, clamped at
  0; the ticks are the field the code reads, at index 20 after the command name.
\<close>

lemma uptime_policies:
  assumes "0 \<le> processUptime e"
  shows
    "0 \<le> getContainerUptimeSeconds e m
     \<and> (uptimeSource m = ''process'' \<longrightarrow> getContainerUptimeSeconds e m = processUptime e)
     \<and> (uptimeSource m = ''pid1'' \<longrightarrow>
          getContainerUptimeSeconds e m =
            (case pid1UptimeSeconds e of Inl err \<Rightarrow> processUptime e | Inr v \<Rightarrow> v))
     \<and> (uptimeSource m \<noteq> ''process'' \<and> uptimeSource m \<noteq> ''pid1'' \<longrightarrow>
          getContainerUptimeSeconds e m =
            (if looksLikeHostPid1 e then processUptime e
             else (case pid1UptimeSeconds e of Inl err \<Rightarrow> processUptime e | Inr v \<Rightarrow> v)))
     \<and> (\<not> truthy (readFile e ''/proc/1/stat'') \<or> \<not> truthy (readFile e ''/proc/stat'') \<longrightarrow>
          pid1UptimeSeconds e = Inl MissingProcFiles)
     \<and> (\<forall>stat1 statBoot rparen field startTicks digits.
          readFile e ''/proc/1/stat'' = Some stat1 \<and> stat1 \<noteq> []
          \<and> readFile e ''/proc/stat'' = Some statBoot \<and> statBoot \<noteq> []
          \<and> lastIndexOf (CHR '')'') stat1 = Some rparen
          \<and> nth_opt (splitWs (trim (drop (rparen + 2) stat1))) 20 = Some field
          \<and> toNumber e field = Num startTicks
          \<and> matchBtime statBoot = Some digits \<longrightarrow>
          pid1UptimeSeconds e =
            Inr (max 0 (rat_of_int (dateNowPid1 e) / 1000
                         - (rat_of_int (digitsValue digits) + startTicks / clockTicks e))))"
proof -
  have nonneg: "0 \<le> getContainerUptimeSeconds e m"
    using uptime_cases [of e m] assms pid1Uptime_nonneg [of e] by auto
  have policy:
    "uptimeSource m = ''process'' \<longrightarrow> getContainerUptimeSeconds e m = processUptime e"
    "uptimeSource m = ''pid1'' \<longrightarrow>
       getContainerUptimeSeconds e m =
         (case pid1UptimeSeconds e of Inl err \<Rightarrow> processUptime e | Inr v \<Rightarrow> v)"
    "uptimeSource m \<noteq> ''process'' \<and> uptimeSource m \<noteq> ''pid1'' \<longrightarrow>
       getContainerUptimeSeconds e m =
         (if looksLikeHostPid1 e then processUptime e
          else (case pid1UptimeSeconds e of Inl err \<Rightarrow> processUptime e | Inr v \<Rightarrow> v))"
    by (simp_all add: getContainerUptimeSeconds_def Let_def nullish_def split: sum.split)
  from nonneg policy pid1Uptime_missing [of e] pid1Uptime_value [of e] show ?thesis
    by blast
qed

lemma hostA_pid1: "pid1UptimeSeconds hostA = Inr 59040"
  by code_simp

lemma uptime_policies_example:
  "0 \<le> processUptime hostA
   \<and> getContainerUptimeSeconds hostA (sampler0\<lparr>uptimeSource := ''pid1''\<rparr>) = 59040
   \<and> getContainerUptimeSeconds (hostA\<lparr>readFile := (\<lambda>f. None)\<rparr>) (sampler0\<lparr>uptimeSource := ''pid1''\<rparr>) = 12
   \<and> getContainerUptimeSeconds hostA (sampler0\<lparr>uptimeSource := ''process''\<rparr>) = 12"
proof -
  have p: "0 \<le> processUptime hostA" "processUptime hostA = 12"
    by (simp_all add: hostA_def)
  have q: "0 \<le> processUptime (hostA\<lparr>readFile := (\<lambda>f. None)\<rparr>)"
    "processUptime (hostA\<lparr>readFile := (\<lambda>f. None)\<rparr>) = 12"
    by (simp_all add: hostA_def)
  from uptime_policies [OF p(1), of "sampler0\<lparr>uptimeSource := ''pid1''\<rparr>"]
       uptime_policies [OF q(1), of "sampler0\<lparr>uptimeSource := ''pid1''\<rparr>"]
       uptime_policies [OF p(1), of "sampler0\<lparr>uptimeSource := ''process''\<rparr>"]
  show ?thesis
    by (simp add: p q hostA_pid1 truthy_def)
qed

lemma pid1Uptime_unfold:
  assumes "readFile e ''/proc/1/stat'' = Some stat1" and "stat1 \<noteq> []"
      and "readFile e ''/proc/stat'' = Some statBoot" and "statBoot \<noteq> []"
  shows "pid1UptimeSeconds e =
           (case lastIndexOf (CHR '')'') stat1 of
              None \<Rightarrow> Inl BadProc1Stat
            | Some rparen \<Rightarrow>
                (case nth_opt (statFields stat1) 20 of
                   None \<Rightarrow> Inl BadStarttime
                 | Some field \<Rightarrow>
                     (case toNumber e field of
                        Num startTicks \<Rightarrow>
                          (case matchBtime statBoot of
                             None \<Rightarrow> Inl MissingBtime
                           | Some digits \<Rightarrow> Inr (uptimeFromTicks e startTicks digits))
                      | _ \<Rightarrow> Inl BadStarttime)))"
proof (cases "lastIndexOf (CHR '')'') stat1")
  case None
  with assms show ?thesis
    by (simp add: pid1UptimeSeconds_def Let_def readFileSafe_def truthy_def)
next
  case (Some rparen)
  then have f: "statFields stat1 = splitWs (trim (drop (rparen + 2) stat1))"
    by (simp add: statFields_def)
  have s1: "readFileSafe e (Some ''/proc/1/stat'') = Some stat1"
    and sb: "readFileSafe e (Some ''/proc/stat'') = Some statBoot"
    using assms by (simp_all add: readFileSafe_def)
  show ?thesis
    unfolding pid1UptimeSeconds_def Let_def uptimeFromTicks_def f s1 sb option.sel
    using assms(2,4) Some by (simp add: truthy_def)
qed

lemma pid1Uptime_malformed:
  assumes "readFile e ''/proc/1/stat'' = Some stat1" and "stat1 \<noteq> []"
      and "readFile e ''/proc/stat'' = Some statBoot" and "statBoot \<noteq> []"
  shows "lastIndexOf (CHR '')'') stat1 = None \<Longrightarrow> pid1UptimeSeconds e = Inl BadProc1Stat"
    and "lastIndexOf (CHR '')'') stat1 = Some rparen \<Longrightarrow> nth_opt (statFields stat1) 20 = None
         \<Longrightarrow> pid1UptimeSeconds e = Inl BadStarttime"
    and "lastIndexOf (CHR '')'') stat1 = Some rparen \<Longrightarrow> nth_opt (statFields stat1) 20 = Some field
         \<Longrightarrow> \<not> js_isFinite (toNumber e field) \<Longrightarrow> pid1UptimeSeconds e = Inl BadStarttime"
    and "lastIndexOf (CHR '')'') stat1 = Some rparen \<Longrightarrow> nth_opt (statFields stat1) 20 = Some field
         \<Longrightarrow> toNumber e field = Num startTicks \<Longrightarrow> matchBtime statBoot = None
         \<Longrightarrow> pid1UptimeSeconds e = Inl MissingBtime"
    and "lastIndexOf (CHR '')'') stat1 = Some rparen \<Longrightarrow> nth_opt (statFields stat1) 20 = Some field
         \<Longrightarrow> toNumber e field = Num startTicks \<Longrightarrow> matchBtime statBoot = Some digits
         \<Longrightarrow> pid1UptimeSeconds e = Inr (uptimeFromTicks e startTicks digits)"
proof -
  note u = pid1Uptime_unfold [OF assms]
  show "lastIndexOf (CHR '')'') stat1 = None \<Longrightarrow> pid1UptimeSeconds e = Inl BadProc1Stat"
    by (simp add: u)
  show "lastIndexOf (CHR '')'') stat1 = Some rparen \<Longrightarrow> nth_opt (statFields stat1) 20 = None
        \<Longrightarrow> pid1UptimeSeconds e = Inl BadStarttime"
    by (simp add: u)
  show "lastIndexOf (CHR '')'') stat1 = Some rparen \<Longrightarrow> nth_opt (statFields stat1) 20 = Some field
        \<Longrightarrow> \<not> js_isFinite (toNumber e field) \<Longrightarrow> pid1UptimeSeconds e = Inl BadStarttime"
    by (cases "toNumber e field") (simp_all add: u)
  show "lastIndexOf (CHR '')'') stat1 = Some rparen \<Longrightarrow> nth_opt (statFields stat1) 20 = Some field
        \<Longrightarrow> toNumber e field = Num startTicks \<Longrightarrow> matchBtime statBoot = None
        \<Longrightarrow> pid1UptimeSeconds e = Inl MissingBtime"
    by (simp add: u)
  show "lastIndexOf (CHR '')'') stat1 = Some rparen \<Longrightarrow> nth_opt (statFields stat1) 20 = Some field
        \<Longrightarrow> toNumber e field = Num startTicks \<Longrightarrow> matchBtime statBoot = Some digits
        \<Longrightarrow> pid1UptimeSeconds e = Inr (uptimeFromTicks e startTicks digits)"
    by (simp add: u)
qed

lemma hostA_stat:
  "readFile hostA ''/proc/1/stat'' = Some pid1Stat"
  "nth_opt (statFields pid1Stat) 19 = Some ''250''"
  "nth_opt (statFields pid1Stat) 20 = Some ''4096000''"
  "getContainerUptimeSeconds hostA (sampler0\<lparr>uptimeSource := ''pid1''\<rparr>) = 59040"
  by code_simp+

lemma hostA_ticks:
  "uptimeFromTicks hostA 4096000 ''1700000000'' = 59040"
  "uptimeFromTicks hostA 250 ''1700000000'' = 199995 / 2"
  by code_simp+

text \<open>
  Claim C6 at a PID 1 that started 250 ticks after boot. The start ticks are field 22
  of the record, index 19 after the command name; the code reads index 20, the virtual
  memory size of 4096000 bytes, as the ticks. At a tick rate of 100 and 100000 seconds
  after boot, the uptime from the start ticks is 99997.5 seconds; the code returns 59040.
\<close>

theorem pid1_uptime_reads_field_after_starttime:
  "readFile hostA ''/proc/1/stat'' = Some pid1Stat
   \<and> nth_opt (statFields pid1Stat) 19 = Some ''250''
   \<and> nth_opt (statFields pid1Stat) 20 = Some ''4096000''
   \<and> pid1UptimeSeconds hostA = Inr (uptimeFromTicks hostA 4096000 ''1700000000'')
   \<and> uptimeFromTicks hostA 4096000 ''1700000000'' = 59040
   \<and> uptimeFromTicks hostA 250 ''1700000000'' = 199995 / 2
   \<and> getContainerUptimeSeconds hostA (sampler0\<lparr>uptimeSource := ''pid1''\<rparr>) = 59040"
  by (simp add: hostA_stat hostA_ticks hostA_pid1)

theorem pid1_uptime_reads_field_after_starttime_witness:
  "nth_opt (statFields pid1Stat) 20 = Some ''4096000''
   \<and> pid1UptimeSeconds hostA = Inr 59040
   \<and> uptimeFromTicks hostA 250 ''1700000000'' = 199995 / 2"
  using pid1_uptime_reads_field_after_starttime by simp

section \<open>A host without the resource-control interface\<close>

lemma in_map_filter: "x \<in> set xs \<Longrightarrow> g x = Some y \<Longrightarrow> y \<in> set (List.map_filter g xs)"
  by (induction xs) (auto split: option.split)

lemma absent_read:
  assumes "cgroupAbsent e m"
      and "f \<in> set [cpuStat, cpuMax, memCur, memMax, swapCur, swapMax,
                     cpuacctUsage, cpuQuota, cpuPeriod, memUsage, memLimit, memswUsage, memswLimit]"
  shows "readFileSafe e (f (paths (resolved e m))) = None"
proof (cases "f (paths (resolved e m))")
  case None
  then show ?thesis by (simp add: readFileSafe_def)
next
  case (Some x)
  from assms(2) Some have "x \<in> set (descriptorPaths (resolved e m))"
    unfolding descriptorPaths_def
    by (rule in_map_filter [where g = "\<lambda>g. g (paths (resolved e m))"])
  with assms(1) have "readFile e x = None"
    by (simp add: cgroupAbsent_def list_all_iff)
  with Some show ?thesis by (simp add: readFileSafe_def)
qed

lemma parse_nothing:
  "parseKeyValue None = Map.empty" "parseCpuMax None = None" "toInt None = None"
  "limitUnlessMax None = None" "truthy None = False"
  by (simp_all add: parseKeyValue_def parseCpuMax_def toInt_def limitUnlessMax_def truthy_def)

lemma reading_absent:
  assumes "cgroupAbsent e m"
  shows "reading e m =
           \<lparr>cg_cpu = \<lparr>usageSeconds = 0, limitCores = None\<rparr>,
            cg_mem = \<lparr>usageBytes = None, limitBytes = Some (ramFallback e m)\<rparr>,
            cg_swap = \<lparr>usageBytes = Some 0, limitBytes = Some 0\<rparr>\<rparr>"
proof -
  note r = absent_read [OF assms]
  have v2: "readCgroupV2 e m (paths (resolved e m)) =
              \<lparr>cg_cpu = \<lparr>usageSeconds = 0, limitCores = None\<rparr>,
               cg_mem = \<lparr>usageBytes = None, limitBytes = Some (ramFallback e m)\<rparr>,
               cg_swap = \<lparr>usageBytes = Some 0, limitBytes = Some 0\<rparr>\<rparr>"
    by (simp add: readCgroupV2_def Let_def r parse_nothing nullish_def)
  have v1: "readCgroupV1 e m (paths (resolved e m)) =
              \<lparr>cg_cpu = \<lparr>usageSeconds = 0, limitCores = None\<rparr>,
               cg_mem = \<lparr>usageBytes = None, limitBytes = Some (ramFallback e m)\<rparr>,
               cg_swap = \<lparr>usageBytes = Some 0, limitBytes = Some 0\<rparr>\<rparr>"
    by (simp add: readCgroupV1_def Let_def r parse_nothing nullish_def)
  show ?thesis
    by (simp add: reading_def getCgroupCpuMemSwap_def Let_def v1 v2)
qed

lemma getContainerUptimeSeconds_ensure [simp]:
  "getContainerUptimeSeconds e (ensureCgroup e m) = getContainerUptimeSeconds e m"
  by (simp add: getContainerUptimeSeconds_def)

lemma getSystemBasic_ensure [simp]: "getSystemBasic e (ensureCgroup e m) = getSystemBasic e m"
  by (simp add: getSystemBasic_def pickIps_def)

lemma snapshot_system:
  "system (fst (snapshot e m)) =
     \<lparr>basic = getSystemBasic e m,
      diskTotalBytes = totalBytes (getDiskUsage e (diskPath m)),
      memLimitBytes = limitBytes (cg_mem (reading e m)),
      swapLimitBytes = limitBytes (cg_swap (reading e m)),
      cgroupMode = (if mode (resolved e m) \<noteq> [] then Some (mode (resolved e m)) else None)\<rparr>"
  by (simp add: snapshot_def Let_def reading_def [symmetric] truthy_def)

lemma snapshot_others:
  "load (metrics (fst (snapshot e m))) = getLoadAvg e"
  "disk (metrics (fst (snapshot e m))) =
     \<lparr>tu_total = totalBytes (getDiskUsage e (diskPath m)),
      tu_used = usedBytes (getDiskUsage e (diskPath m))\<rparr>"
  "connections (metrics (fst (snapshot e m))) = getConnSummary e"
  "process (metrics (fst (snapshot e m))) = processCount (getProcessAndThreads e)"
  "threads (metrics (fst (snapshot e m))) = threadCount (getProcessAndThreads e)"
  "uptimeSeconds (metrics (fst (snapshot e m))) = getContainerUptimeSeconds e m"
  by (simp_all add: snapshot_def Let_def)

text \<open>
  Claim C7, as the code has it. When no file of the resolved descriptor can be read,
  the snapshot is still produced. Its memory limit (\<open>ram.total\<close> and \<open>memLimitBytes\<close>) is
  exactly the configured fallback, the host's total memory or 0; its CPU limit is \<open>null\<close>,
  not a fallback value; memory usage is \<open>null\<close>, swap usage and limit are 0. Load, disk,
  network, connections, process and thread counts, uptime and the identity facts are the
  values of their own readers.
\<close>

theorem snapshot_without_cgroup:
  assumes "cgroupAbsent e m"
  shows
    "(let s = fst (snapshot e m) in
        memLimitBytes (system s) = Some (if ramTotalFallback m = ''host'' then os_totalmem e else 0)
        \<and> tu_total (ram (metrics s)) = Some (if ramTotalFallback m = ''host'' then os_totalmem e else 0)
        \<and> tu_used (ram (metrics s)) = None
        \<and> cpu_limitCores (cpu (metrics s)) = None
        \<and> swap (metrics s) = \<lparr>tu_total = Some 0, tu_used = Some 0\<rparr>
        \<and> swapLimitBytes (system s) = Some 0
        \<and> basic (system s) = getSystemBasic e m
        \<and> load (metrics s) = getLoadAvg e
        \<and> disk (metrics s) =
            \<lparr>tu_total = totalBytes (getDiskUsage e (diskPath m)),
             tu_used = usedBytes (getDiskUsage e (diskPath m))\<rparr>
        \<and> byInterface (network (metrics s)) = getNetDev e m
        \<and> totalDownBytes (network (metrics s)) = sumRx (getNetDev e m)
        \<and> totalUpBytes (network (metrics s)) = sumTx (getNetDev e m)
        \<and> connections (metrics s) = getConnSummary e
        \<and> process (metrics s) = processCount (getProcessAndThreads e)
        \<and> threads (metrics s) = threadCount (getProcessAndThreads e)
        \<and> uptimeSeconds (metrics s) = getContainerUptimeSeconds e m)"
  unfolding Let_def
  by (simp add: snapshot_system snapshot_ram snapshot_swap snapshot_cpu snapshot_others
        snapshot_network sampleRates_def computeRates_totals reading_absent [OF assms]
        ramFallback_def)

lemma hostBare_absent: "cgroupAbsent hostBare sampler0"
  by code_simp

lemma hostBare_descriptor:
  "memLimit (paths (resolved hostBare sampler0)) =
     Some ''/sys/fs/cgroup/memory/docker/abc/memory.limit_in_bytes''"
  by code_simp

lemma hostBare_readers:
  "getNetDev hostBare sampler0 = [(''eth0'', \<lparr>rxBytes = 1000, txBytes = 500\<rparr>)]"
  "getConnSummary hostBare = \<lparr>tcp = 1, udp = 0, unix = 0\<rparr>"
  "getProcessAndThreads hostBare = \<lparr>processCount = 1, threadCount = 11\<rparr>"
  "getDiskUsage hostBare (diskPath sampler0) = \<lparr>totalBytes = Some 1024000000, usedBytes = Some 256000000\<rparr>"
  "getContainerUptimeSeconds hostBare sampler0 = 59040"
  by code_simp+

theorem snapshot_without_cgroup_witness:
  "cgroupAbsent hostBare sampler0
   \<and> memLimitBytes (system (fst (snapshot hostBare sampler0))) = Some 8589934592
   \<and> tu_total (ram (metrics (fst (snapshot hostBare sampler0)))) = Some 8589934592
   \<and> byInterface (network (metrics (fst (snapshot hostBare sampler0)))) =
       [(''eth0'', \<lparr>rxBytes = 1000, txBytes = 500\<rparr>)]
   \<and> connections (metrics (fst (snapshot hostBare sampler0))) = \<lparr>tcp = 1, udp = 0, unix = 0\<rparr>
   \<and> process (metrics (fst (snapshot hostBare sampler0))) = 1
   \<and> threads (metrics (fst (snapshot hostBare sampler0))) = 11
   \<and> disk (metrics (fst (snapshot hostBare sampler0))) =
       \<lparr>tu_total = Some 1024000000, tu_used = Some 256000000\<rparr>
   \<and> uptimeSeconds (metrics (fst (snapshot hostBare sampler0))) = 59040"
proof -
  have t: "os_totalmem hostBare = 8589934592"
    by (simp add: hostBare_def hostA_def)
  from snapshot_without_cgroup [OF hostBare_absent] show ?thesis
    unfolding Let_def
    by (simp add: hostBare_absent hostBare_readers sampler0_fields t)
qed

text \<open>
  Claim C7 as stated fails for the CPU limit: on a host without the interface the
  snapshot's CPU limit is \<open>null\<close>, neither the host's core count nor 0.
\<close>

theorem cpu_limit_without_cgroup_is_null:
  "cpu_limitCores (cpu (metrics (fst (snapshot hostBare sampler0)))) = None"
  by (simp add: snapshot_cpu reading_absent [OF hostBare_absent])

section \<open>Reconnecting after a close\<close>

lemma clearIntervalOpt_fields [simp]:
  "stopped (clearIntervalOpt h a) = stopped a"
  "reportTimer (clearIntervalOpt h a) = reportTimer a"
  "infoTimer (clearIntervalOpt h a) = infoTimer a"
  "timeouts (clearIntervalOpt h a) = timeouts a"
  "nextHandle (clearIntervalOpt h a) = nextHandle a"
  "reconnectIntervalMs (clearIntervalOpt h a) = reconnectIntervalMs a"
  "reportIntervalMs (clearIntervalOpt h a) = reportIntervalMs a"
  "set (intervals (clearIntervalOpt h a)) \<subseteq> set (intervals a)"
  by (auto simp: clearIntervalOpt_def split: option.split)

lemma clear_own_timer:
  assumes "timersOwned a"
  shows "\<not> pushTimerRunning (clearIntervalOpt (reportTimer a) a)"
proof (cases "reportTimer a")
  case None
  with assms show ?thesis
    by (auto simp: timersOwned_def pushTimerRunning_def clearIntervalOpt_def
          list_all_iff list_ex_iff)
next
  case (Some h)
  with assms show ?thesis
    by (auto simp: timersOwned_def pushTimerRunning_def clearIntervalOpt_def
          list_all_iff list_ex_iff)
qed

lemma not_running_subset:
  "\<not> pushTimerRunning a \<Longrightarrow> set (intervals b) \<subseteq> set (intervals a) \<Longrightarrow> \<not> pushTimerRunning b"
  by (auto simp: pushTimerRunning_def list_ex_iff)

lemma not_running_owned: "\<not> pushTimerRunning a \<Longrightarrow> reportTimer a = None \<Longrightarrow> timersOwned a"
  by (auto simp: pushTimerRunning_def timersOwned_def list_ex_iff list_all_iff)

lemma connect_fields [simp]:
  "intervals (connectWebSocket a) = intervals a"
  "reportTimer (connectWebSocket a) = reportTimer a"
  "reconnectIntervalMs (connectWebSocket a) = reconnectIntervalMs a"
  by (simp_all add: connectWebSocket_def)

lemma step_owned: "timersOwned a \<Longrightarrow> timersOwned (step ev a)"
proof (cases ev)
  case WsOpen
  assume "timersOwned a"
  from clear_own_timer [OF this] show ?thesis
    unfolding WsOpen
    by (auto simp: onOpen_def setIntervalOf_def Let_def timersOwned_def pushTimerRunning_def
          list_all_iff list_ex_iff)
next
  case WsClose
  assume "timersOwned a"
  from clear_own_timer [OF this] show ?thesis
    unfolding WsClose using \<open>timersOwned a\<close>
    by (auto simp: scheduleReconnect_def Let_def timersOwned_def pushTimerRunning_def
          list_all_iff list_ex_iff)
next
  case Stop
  assume o: "timersOwned a"
  have "\<not> pushTimerRunning (clearIntervalOpt (reportTimer a) a)"
    by (rule clear_own_timer [OF o])
  then have "\<not> pushTimerRunning (stop a)"
    by (auto simp: stop_def Let_def pushTimerRunning_def list_ex_iff clearIntervalOpt_def
          split: option.splits)
  then show ?thesis
    unfolding Stop by (auto intro: not_running_owned simp: stop_def Let_def)
next
  case Started
  assume "timersOwned a"
  then show ?thesis
    unfolding Started
    by (auto simp: setIntervalOf_def Let_def timersOwned_def list_all_iff connectWebSocket_def)
next
  case ReconnectDue
  assume "timersOwned a"
  then show ?thesis
    unfolding ReconnectDue
    by (auto simp: Let_def timersOwned_def list_all_iff connectWebSocket_def split: list.split)
qed (simp_all add: timersOwned_def)

lemma run_Cons: "run (ev # evs) a = run evs (step ev a)"
  by (simp add: run_def)

lemma run_Nil: "run [] a = a"
  by (simp add: run_def)

lemma run_owned: "timersOwned a \<Longrightarrow> timersOwned (run evs a)"
  by (induction evs arbitrary: a) (simp_all add: run_Nil run_Cons step_owned)

lemma step_config: "reconnectIntervalMs (step ev a) = reconnectIntervalMs a"
  by (cases ev)
     (simp_all add: stop_def onOpen_def scheduleReconnect_def setIntervalOf_def Let_def
        connectWebSocket_def split: list.split)

lemma run_config: "reconnectIntervalMs (run evs a) = reconnectIntervalMs a"
  by (induction evs arbitrary: a) (simp_all add: run_Nil run_Cons step_config)

lemma step_not_running:
  "ev \<noteq> WsOpen \<Longrightarrow> \<not> pushTimerRunning a \<Longrightarrow> \<not> pushTimerRunning (step ev a)"
  by (cases ev)
     (auto simp: pushTimerRunning_def list_ex_iff stop_def scheduleReconnect_def
        setIntervalOf_def Let_def connectWebSocket_def clearIntervalOpt_def
        split: list.splits option.splits)

lemma run_not_running:
  "WsOpen \<notin> set evs \<Longrightarrow> \<not> pushTimerRunning a \<Longrightarrow> \<not> pushTimerRunning (run evs a)"
proof (induction evs arbitrary: a)
  case Nil
  then show ?case by (simp add: run_Nil)
next
  case (Cons ev evs)
  from Cons.prems have "ev \<noteq> WsOpen" and rest: "WsOpen \<notin> set evs"
    by auto
  then have "\<not> pushTimerRunning (step ev a)"
    using Cons.prems(2) by (simp add: step_not_running)
  from Cons.IH [OF rest this] show ?case
    by (simp add: run_Cons)
qed

lemma newAgent_owned: "newAgent options = Inr a \<Longrightarrow> timersOwned a"
  by (auto simp: newAgent_def timersOwned_def split: if_splits)

lemma newAgent_delay:
  "newAgent options = Inr a \<Longrightarrow>
   reconnectIntervalMs a = nullish (opt_reconnectIntervalMs options) 5000"
  by (auto simp: newAgent_def split: if_splits)

lemma close_schedules:
  assumes "\<not> stopped a"
  shows "timeouts (step WsClose a) = timeouts a @ [(nextHandle a, reconnectIntervalMs a)]"
    and "reportTimer (step WsClose a) = None"
  using assms by (simp_all add: scheduleReconnect_def Let_def)

lemma close_cancels:
  assumes "timersOwned a" and "\<not> stopped a"
  shows "\<not> pushTimerRunning (step WsClose a)"
  using clear_own_timer [OF assms(1)] assms(2)
  by (simp add: scheduleReconnect_def Let_def pushTimerRunning_def)

lemma clearIntervalOpt_sockets [simp]:
  "sockets (clearIntervalOpt h a) = sockets a"
  "ws (clearIntervalOpt h a) = ws a"
  by (simp_all add: clearIntervalOpt_def split: option.split)

lemma due_connects:
  assumes "timeouts b \<noteq> []"
  shows "\<not> stopped b \<Longrightarrow>
         step ReconnectDue b =
           b\<lparr>timeouts := tl (timeouts b), ws := Some (sockets b), sockets := sockets b + 1\<rparr>"
    and "stopped b \<Longrightarrow> step ReconnectDue b = b\<lparr>timeouts := tl (timeouts b)\<rparr>"
  using assms by (cases "timeouts b"; simp add: Let_def connectWebSocket_def)+

lemma close_then_due:
  assumes "\<not> stopped a" and "timeouts a = []"
  shows "step ReconnectDue (step WsClose a) =
           (step WsClose a)\<lparr>timeouts := [], ws := Some (sockets a), sockets := sockets a + 1\<rparr>"
  using assms by (simp add: scheduleReconnect_def Let_def connectWebSocket_def)

lemma other_events:
  assumes "ev \<noteq> ReconnectDue" and "ev \<noteq> Started"
  shows "sockets (step ev b) = sockets b"
    and "ev \<noteq> WsClose \<Longrightarrow> timeouts (step ev b) = timeouts b"
  using assms
  by (cases ev; simp add: stop_def onOpen_def scheduleReconnect_def setIntervalOf_def Let_def)+

text \<open>
  Claim C9. Take an agent in any state it can reach from its construction, not stopped.
  The handler of a close event appends exactly one time-out to the pending ones, with
  the configured reconnect delay, and leaves no push timer: the handle is \<open>null\<close> and no
  interval timer of that kind runs. After any further events that contain no open
  event, at every point of them, no push timer runs. A pending time-out that comes due
  while the agent is not stopped is removed and makes one connection attempt, a new
  socket that becomes \<open>this._ws\<close>; when the agent is stopped it is only removed. So the
  time-out of this close, when nothing else is pending, makes that attempt. No handler
  but that of a close adds a time-out, and no event but a due time-out and the start
  creates a socket.
\<close>

theorem reconnect_after_close:
  assumes "newAgent options = Inr a0"
      and "a = run before a0"
      and "\<not> stopped a"
      and "WsOpen \<notin> set after"
  shows
    "timeouts (step WsClose a) = timeouts a @ [(nextHandle a, reconnectIntervalMs a)]
     \<and> reconnectIntervalMs a = nullish (opt_reconnectIntervalMs options) 5000
     \<and> reportTimer (step WsClose a) = None
     \<and> (\<forall>n. \<not> pushTimerRunning (run (take n after) (step WsClose a)))
     \<and> (\<forall>b. timeouts b \<noteq> [] \<and> \<not> stopped b \<longrightarrow>
            step ReconnectDue b =
              b\<lparr>timeouts := tl (timeouts b), ws := Some (sockets b), sockets := sockets b + 1\<rparr>)
     \<and> (\<forall>b. timeouts b \<noteq> [] \<and> stopped b \<longrightarrow>
            step ReconnectDue b = b\<lparr>timeouts := tl (timeouts b)\<rparr>)
     \<and> (timeouts a = [] \<longrightarrow>
            step ReconnectDue (step WsClose a) =
              (step WsClose a)\<lparr>timeouts := [], ws := Some (sockets a), sockets := sockets a + 1\<rparr>)
     \<and> (\<forall>ev b. ev \<noteq> ReconnectDue \<and> ev \<noteq> Started \<longrightarrow>
            sockets (step ev b) = sockets b
            \<and> (ev \<noteq> WsClose \<longrightarrow> timeouts (step ev b) = timeouts b))"
proof -
  have owned: "timersOwned a"
    unfolding assms(2) by (rule run_owned [OF newAgent_owned [OF assms(1)]])
  have delay: "reconnectIntervalMs a = nullish (opt_reconnectIntervalMs options) 5000"
    unfolding assms(2) run_config by (rule newAgent_delay [OF assms(1)])
  have quiet: "\<forall>n. \<not> pushTimerRunning (run (take n after) (step WsClose a))"
  proof
    fix n
    show "\<not> pushTimerRunning (run (take n after) (step WsClose a))"
    proof (rule run_not_running)
      show "WsOpen \<notin> set (take n after)"
        using assms(4) by (auto dest: in_set_takeD)
      show "\<not> pushTimerRunning (step WsClose a)"
        by (rule close_cancels [OF owned assms(3)])
    qed
  qed
  have due: "\<forall>b. timeouts b \<noteq> [] \<and> \<not> stopped b \<longrightarrow>
               step ReconnectDue b =
                 b\<lparr>timeouts := tl (timeouts b), ws := Some (sockets b), sockets := sockets b + 1\<rparr>"
    using due_connects(1) by blast
  have dueStopped: "\<forall>b. timeouts b \<noteq> [] \<and> stopped b \<longrightarrow>
                      step ReconnectDue b = b\<lparr>timeouts := tl (timeouts b)\<rparr>"
    using due_connects(2) by blast
  have this_one: "timeouts a = [] \<longrightarrow>
                    step ReconnectDue (step WsClose a) =
                      (step WsClose a)\<lparr>timeouts := [], ws := Some (sockets a), sockets := sockets a + 1\<rparr>"
    using close_then_due [OF assms(3)] by blast
  have others: "\<forall>ev b. ev \<noteq> ReconnectDue \<and> ev \<noteq> Started \<longrightarrow>
                  sockets (step ev b) = sockets b
                  \<and> (ev \<noteq> WsClose \<longrightarrow> timeouts (step ev b) = timeouts b)"
    using other_events by blast
  note sched = close_schedules [OF assms(3)]
  show ?thesis
    apply (intro conjI)
           apply (rule sched(1))
          apply (rule delay)
         apply (rule sched(2))
        apply (rule quiet)
       apply (rule due)
      apply (rule dueStopped)
     apply (rule this_one)
    apply (rule others)
    done
qed

lemma agent0_constructed: "newAgent agentOptions = Inr agent0"
  by (simp add: newAgent_def agentOptions_def agent0_def truthy_def nullish_def)

lemma agent0_connected:
  "run [Start, Started, WsOpen, ReportTick, ReportSent] agent0 =
     \<lparr>reportIntervalMs = 1000, infoIntervalMs = 300000, reconnectIntervalMs = 3000,
      ws = Some 0, reportTimer = Some 1, infoTimer = Some 0, stopped = False, seq_no = 1,
      nextHandle = 2,
      intervals = [\<lparr>handle = 0, kind = InfoPush, period = 300000\<rparr>,
                   \<lparr>handle = 1, kind = ReportPush, period = 1000\<rparr>],
      timeouts = [], sockets = 1\<rparr>"
  by (simp add: run_def agent0_def setIntervalOf_def connectWebSocket_def onOpen_def
        clearIntervalOpt_def Let_def)

theorem reconnect_after_close_witness:
  "newAgent agentOptions = Inr agent0
   \<and> \<not> stopped (run [Start, Started, WsOpen, ReportTick, ReportSent] agent0)
   \<and> pushTimerRunning (run [Start, Started, WsOpen, ReportTick, ReportSent] agent0)
   \<and> timeouts (step WsClose (run [Start, Started, WsOpen, ReportTick, ReportSent] agent0))
       = [(2, 3000)]
   \<and> \<not> pushTimerRunning
         (run [WsError, ReconnectDue, ReportTick, InfoTick]
            (step WsClose (run [Start, Started, WsOpen, ReportTick, ReportSent] agent0)))
   \<and> ws (step ReconnectDue
            (step WsClose (run [Start, Started, WsOpen, ReportTick, ReportSent] agent0)))
       = Some 1
   \<and> sockets (step ReconnectDue
                 (step WsClose (run [Start, Started, WsOpen, ReportTick, ReportSent] agent0)))
       = 2
   \<and> timeouts (step ReconnectDue
                  (step WsClose (run [Start, Started, WsOpen, ReportTick, ReportSent] agent0)))
       = []"
proof -
  let ?a = "run [Start, Started, WsOpen, ReportTick, ReportSent] agent0"
  let ?after = "[WsError, ReconnectDue, ReportTick, InfoTick]"
  have s: "\<not> stopped ?a"
    by (simp add: agent0_connected)
  have r: "pushTimerRunning ?a"
    by (simp add: agent0_connected pushTimerRunning_def)
  have n: "WsOpen \<notin> set ?after"
    by simp
  have e: "timeouts ?a = []" and k: "sockets ?a = 1"
    by (simp_all add: agent0_connected)
  note T = reconnect_after_close [OF agent0_constructed refl s n]
  from T have t: "timeouts (step WsClose ?a) = timeouts ?a @ [(nextHandle ?a, reconnectIntervalMs ?a)]"
    by (rule conjunct1)
  from T have q: "\<not> pushTimerRunning (run (take 4 ?after) (step WsClose ?a))"
    by blast
  from T e have d: "step ReconnectDue (step WsClose ?a) =
                      (step WsClose ?a)\<lparr>timeouts := [], ws := Some (sockets ?a), sockets := sockets ?a + 1\<rparr>"
    by blast
  have d1: "ws (step ReconnectDue (step WsClose ?a)) = Some 1"
    and d2: "sockets (step ReconnectDue (step WsClose ?a)) = 2"
    and d3: "timeouts (step ReconnectDue (step WsClose ?a)) = []"
    unfolding d by (simp_all add: k)
  from t q have "timeouts (step WsClose ?a) = [(2, 3000)]"
    and "\<not> pushTimerRunning (run ?after (step WsClose ?a))"
    by (simp_all add: agent0_connected)
  with s r d1 d2 d3 show ?thesis
    by (simp add: agent0_constructed)
qed

end
